theory Spec2Isabelle
  imports Main "HOL-Library.Word"
begin

unbundle bit_operations_syntax

section \<open>The two-wire bus as seen by the driver\<close>

text \<open>
  The Arduino \<open>Wire\<close> object is an external collaborator of the driver. It is modelled
  by the sequence of calls made on it so far, together with two response functions
  that say what the bus answers after a given history of calls: the status that
  \<open>Wire.endTransmission()\<close> returns and the byte that \<open>Wire.read()\<close> delivers (already
  narrowed to \<open>uint8_t\<close>, as every reader in the sources stores it). A response may
  depend on everything written before, hence on the device that sits on the bus; it
  is computed from the calls made before the answering call, which is then recorded.
\<close>

type_synonym u8 = "8 word"

datatype wire_event =
    WireBegin
  | WireBeginAddr u8
  | BeginTransmission u8
  | WireWrite u8
  | EndTransmission
  | RequestFrom u8 nat
  | WireRead

record wire =
  calls :: "wire_event list"
  endStatus :: "wire_event list \<Rightarrow> u8"
  readData :: "wire_event list \<Rightarrow> u8"

definition wire_begin :: "wire \<Rightarrow> wire" where
  "wire_begin w = w\<lparr>calls := calls w @ [WireBegin]\<rparr>"

definition wire_begin_addr :: "u8 \<Rightarrow> wire \<Rightarrow> wire" where
  "wire_begin_addr a w = w\<lparr>calls := calls w @ [WireBeginAddr a]\<rparr>"

definition beginTransmission :: "u8 \<Rightarrow> wire \<Rightarrow> wire" where
  "beginTransmission a w = w\<lparr>calls := calls w @ [BeginTransmission a]\<rparr>"

definition wire_write :: "u8 \<Rightarrow> wire \<Rightarrow> wire" where
  "wire_write v w = w\<lparr>calls := calls w @ [WireWrite v]\<rparr>"

definition endTransmission :: "wire \<Rightarrow> u8 \<times> wire" where
  "endTransmission w = (endStatus w (calls w), w\<lparr>calls := calls w @ [EndTransmission]\<rparr>)"

definition requestFrom :: "u8 \<Rightarrow> nat \<Rightarrow> wire \<Rightarrow> wire" where
  "requestFrom a n w = w\<lparr>calls := calls w @ [RequestFrom a n]\<rparr>"

definition wire_read :: "wire \<Rightarrow> u8 \<times> wire" where
  "wire_read w = (readData w (calls w), w\<lparr>calls := calls w @ [WireRead]\<rparr>)"

section \<open>LiquidCrystal\_IIC: data\<close>

datatype iicChipType = IIC_UNKNOWN | IIC_PCF8574 | IIC_MCP23008

text \<open>
  Modelled from the spec: the enumeration behind \<open>__typeof__(POSITIVE)\<close> is declared in
  the missing header \<open>LCD.h\<close>; the spec gives the backlight polarity the two values
  Positive and Negative.
\<close>

datatype t_backlighPol = POSITIVE | NEGATIVE

definition IIC_ADDR_UNKNOWN :: u8 where
  "IIC_ADDR_UNKNOWN = 0xff"

text \<open>
  Modelled from the spec: the header \<open>LCD.h\<close> with the mode constants of \<open>send\<close> is
  missing. The spec has the two modes Command and Data, where command mode leaves
  register-select low (so the command constant contributes no bit to the byte that
  \<open>write4bits\<close> builds), and a raw 4-bit command path used during reset.
\<close>

definition COMMAND :: u8 where
  "COMMAND = 0"

definition DATA :: u8 where
  "DATA = 1"

definition FOUR_BITS :: u8 where
  "FOUR_BITS = 2"

text \<open>
  The members of the class. \<open>_data_pins[4]\<close> is an array indexed by 0..3; it is a
  function from the index. \<open>_polarity\<close> and \<open>_displayfunction\<close> are inherited members.
\<close>

record lcd =
  Addr :: u8
  iicType :: iicChipType
  backlightPinMask :: u8
  backlightStsMask :: u8
  polarity :: t_backlighPol
  En :: u8
  Rw :: u8
  Rs :: u8
  data_pins :: "nat \<Rightarrow> u8"
  displayfunction :: u8

section \<open>LiquidCrystal\_IIC: operations\<close>

text \<open>
  \<open>( 1 << pin )\<close> stored into a \<open>uint8_t\<close>: one bit for a pin in 0..7, and 0 once the
  bit leaves the byte. (A shift by the width of \<open>int\<close> or more is undefined in C++; no
  property below relies on the value there.)
\<close>

definition pin_mask :: "u8 \<Rightarrow> u8" where
  "pin_mask pin = push_bit (unat pin) 1"

definition config :: "u8 \<Rightarrow> iicChipType \<Rightarrow> u8 \<Rightarrow> u8 \<Rightarrow> u8 \<Rightarrow> u8 \<Rightarrow> u8 \<Rightarrow> u8 \<Rightarrow> u8 \<Rightarrow> lcd \<Rightarrow> lcd" where
  "config iic_Addr iic_type en rw rs d4 d5 d6 d7 s =
     s\<lparr>iicType := iic_type,
       Addr := iic_Addr,
       backlightPinMask := 0,
       backlightStsMask := 0,
       polarity := POSITIVE,
       En := pin_mask en,
       Rw := pin_mask rw,
       Rs := pin_mask rs,
       data_pins := (data_pins s)(0 := pin_mask d4, 1 := pin_mask d5,
                                  2 := pin_mask d6, 3 := pin_mask d7)\<rparr>"

definition setBacklightPin :: "u8 \<Rightarrow> t_backlighPol \<Rightarrow> lcd \<Rightarrow> lcd" where
  "setBacklightPin v pol s = s\<lparr>backlightPinMask := pin_mask v, polarity := pol\<rparr>"

definition setBacklight :: "u8 \<Rightarrow> lcd \<Rightarrow> wire \<Rightarrow> lcd \<times> wire" where
  "setBacklight v s w =
     (if backlightPinMask s \<noteq> 0 then
        (let s1 = (if (polarity s = POSITIVE \<and> v > 0) \<or> (polarity s = NEGATIVE \<and> v = 0)
                   then s\<lparr>backlightStsMask := backlightPinMask s\<rparr>
                   else s\<lparr>backlightStsMask := 0\<rparr>);
             w1 = beginTransmission (Addr s1) w;
             w2 = (if iicType s1 = IIC_MCP23008 then wire_write 0x0A w1 else w1);
             w3 = wire_write (backlightStsMask s1) w2;
             (st, w4) = endTransmission w3
         in (s1, w4))
      else (s, w))"

definition IdentifyIOexp :: "u8 \<Rightarrow> wire \<Rightarrow> iicChipType \<times> wire" where
  "IdentifyIOexp address w =
     (let w1 = beginTransmission address w;
          w2 = wire_write 0 w1;
          w3 = wire_write 0xff w2;
          (st1, w4) = endTransmission w3;
          w5 = beginTransmission address w4;
          w6 = wire_write 0 w5;
          (st2, w7) = endTransmission w6;
          w8 = requestFrom address 1 w7;
          (data, w9) = wire_read w8
      in if data = 0xff then (IIC_MCP23008, w9)
         else if data = 0x00 then (IIC_PCF8574, w9)
         else (IIC_UNKNOWN, w9))"

text \<open>The calls that one run of \<open>IdentifyIOexp\<close> makes up to its read request.\<close>

definition probe_calls :: "u8 \<Rightarrow> wire_event list" where
  "probe_calls address =
     [BeginTransmission address, WireWrite 0x00, WireWrite 0xff, EndTransmission,
      BeginTransmission address, WireWrite 0x00, EndTransmission,
      RequestFrom address 1]"

function LocateDevice_loop :: "u8 \<Rightarrow> wire \<Rightarrow> u8 \<times> wire" where
  "LocateDevice_loop address w =
     (if address \<le> 127 then
        (let w1 = beginTransmission address w;
             (error, w2) = endTransmission w1
         in if error = 0 then
              (let (chiptype, w3) = IdentifyIOexp address w2
               in if chiptype = IIC_UNKNOWN then LocateDevice_loop (address + 1) w3
                  else (address, w3))
            else LocateDevice_loop (address + 1) w2)
      else (IIC_ADDR_UNKNOWN, w))"
  by pat_completeness auto
termination
proof (relation "measure (\<lambda>(address, w). 128 - unat address)")
  show "wf (measure (\<lambda>(address, w). 128 - unat address))"
    by simp
next
  fix address :: u8 and w w3 :: wire
  assume "address \<le> 127"
  then have "unat address \<le> 127"
    by (simp add: word_le_nat_alt)
  moreover from this have "unat (address + 1) = unat address + 1"
    by (simp add: unat_word_ariths)
  ultimately show "((address + 1, w3), address, w) \<in> measure (\<lambda>(address, w). 128 - unat address)"
    by simp
next
  fix address :: u8 and w w2 :: wire
  assume "address \<le> 127"
  then have "unat address \<le> 127"
    by (simp add: word_le_nat_alt)
  moreover from this have "unat (address + 1) = unat address + 1"
    by (simp add: unat_word_ariths)
  ultimately show "((address + 1, w2), address, w) \<in> measure (\<lambda>(address, w). 128 - unat address)"
    by simp
qed

definition LocateDevice :: "wire \<Rightarrow> u8 \<times> wire" where
  "LocateDevice w = LocateDevice_loop 0 w"

definition pulseEnable :: "u8 \<Rightarrow> lcd \<Rightarrow> wire \<Rightarrow> wire" where
  "pulseEnable data s w = wire_write (data AND NOT (En s)) (wire_write (data OR En s) w)"

text \<open>
  The loop of \<open>write4bits\<close> over the four data lines, from index \<open>i\<close> on: the value
  is shifted right once per round and its lowest bit selects \<open>_data_pins[i]\<close>.
\<close>

function write4bits_loop :: "lcd \<Rightarrow> nat \<Rightarrow> u8 \<Rightarrow> u8 \<Rightarrow> u8" where
  "write4bits_loop s i v pinMapValue =
     (if i < 4 then
        write4bits_loop s (Suc i) (drop_bit 1 v)
          (if v AND 0x1 = 1 then pinMapValue OR data_pins s i else pinMapValue)
      else pinMapValue)"
  by pat_completeness auto
termination
  by (relation "measure (\<lambda>(s, i, v, pinMapValue). 4 - i)") auto

text \<open>The byte that \<open>write4bits\<close> hands to \<open>pulseEnable\<close>.\<close>

definition write4bits_pinMapValue :: "u8 \<Rightarrow> u8 \<Rightarrow> lcd \<Rightarrow> u8" where
  "write4bits_pinMapValue v mode s =
     (let pinMapValue = write4bits_loop s 0 v 0;
          mode1 = (if mode = DATA then Rs s else mode)
      in pinMapValue OR (mode1 OR backlightStsMask s))"

definition write4bits :: "u8 \<Rightarrow> u8 \<Rightarrow> lcd \<Rightarrow> wire \<Rightarrow> wire" where
  "write4bits v mode s w = pulseEnable (write4bits_pinMapValue v mode s) s w"

definition send :: "u8 \<Rightarrow> u8 \<Rightarrow> lcd \<Rightarrow> wire \<Rightarrow> lcd \<times> wire" where
  "send v mode s w =
     (if Addr s = IIC_ADDR_UNKNOWN then (s, w)
      else if mode = FOUR_BITS then
        (let w1 = beginTransmission (Addr s) w;
             w2 = (if iicType s = IIC_MCP23008 then wire_write 0x0A w1 else w1);
             w3 = write4bits (v AND 0x0F) COMMAND s w2;
             (st, w4) = endTransmission w3
         in (s, w4))
      else if mode = DATA \<and> (v = 0x0D \<or> v = 0x0A) then (s, w)
      else
        (let w1 = beginTransmission (Addr s) w;
             w2 = (if iicType s = IIC_MCP23008 then wire_write 0x0A w1 else w1);
             w3 = write4bits (drop_bit 4 v) mode s w2;
             w4 = write4bits (v AND 0x0F) mode s w3;
             (st, w5) = endTransmission w4
         in (s, w5)))"

text \<open>
  Modelled from the spec: the function-set flags that \<open>init\<close> stores at its end are
  declared in the missing header \<open>LCD.h\<close>. The spec leaves the base LCD command set to
  an external collaborator and gives no values; the three flags are the zero bits of
  the HD44780 function-set command, and no property below depends on them.
\<close>

definition LCD_4BITMODE :: u8 where
  "LCD_4BITMODE = 0x00"

definition LCD_1LINE :: u8 where
  "LCD_1LINE = 0x00"

definition LCD_5x8DOTS :: u8 where
  "LCD_5x8DOTS = 0x00"

text \<open>
  \<open>init\<close> returns an \<open>int\<close>: -1 when the address or the chip type stays unresolved,
  else the status of the last transaction.
\<close>

definition init :: "lcd \<Rightarrow> wire \<Rightarrow> int \<times> lcd \<times> wire" where
  "init s w =
     (let w0 = wire_begin w;
          (s1, w1) = (if Addr s = IIC_ADDR_UNKNOWN
                      then (let (a, w') = LocateDevice w0 in (s\<lparr>Addr := a\<rparr>, w'))
                      else (s, w0))
      in if Addr s1 = IIC_ADDR_UNKNOWN then (-1, s1, w1)
         else
           (let (s2, w2) = (if iicType s1 = IIC_UNKNOWN
                            then (let (t, w') = IdentifyIOexp (Addr s1) w1
                                  in (s1\<lparr>iicType := t\<rparr>, w'))
                            else (s1, w1))
            in if iicType s2 = IIC_UNKNOWN then (-1, s2, w2)
               else
                 (let w3 = beginTransmission (Addr s2) (wire_begin_addr (Addr s2) w2);
                      w4 = (if iicType s2 = IIC_MCP23008 then
                              (let a1 = wire_write 0x20 (wire_write 5 w3);
                                   (st1, a2) = endTransmission a1;
                                   a3 = wire_write 0 (wire_write 0 (beginTransmission (Addr s2) a2));
                                   (st2, a4) = endTransmission a3
                               in wire_write 0x0A (beginTransmission (Addr s2) a4))
                            else w3);
                      w5 = wire_write 0 w4;
                      (status, w6) = endTransmission w5
                  in (uint status,
                      s2\<lparr>displayfunction := LCD_4BITMODE OR LCD_1LINE OR LCD_5x8DOTS\<rparr>,
                      w6))))"

text \<open>A run of \<open>send\<close> calls, one after the other, on the same instance.\<close>

fun sends :: "(u8 \<times> u8) list \<Rightarrow> lcd \<Rightarrow> wire \<Rightarrow> lcd \<times> wire" where
  "sends [] s w = (s, w)"
| "sends ((v, mode) # rest) s w = (let (s1, w1) = send v mode s w in sends rest s1 w1)"

text \<open>A run of \<open>setBacklight\<close> calls with the given levels.\<close>

fun setBacklights :: "u8 list \<Rightarrow> lcd \<Rightarrow> wire \<Rightarrow> lcd \<times> wire" where
  "setBacklights [] s w = (s, w)"
| "setBacklights (v # rest) s w = (let (s1, w1) = setBacklight v s w in setBacklights rest s1 w1)"

section \<open>I2CIO: the expander register component\<close>

text \<open>\<open>HIGH\<close> of the Arduino core, which is 1.\<close>

definition HIGH :: u8 where
  "HIGH = 0x1"

record i2cio =
  i2cAddr :: u8
  dirMask :: u8
  shadow :: u8
  initialised :: bool
  chipType :: u8

text \<open>The constructor assigns four of the five members.\<close>

definition I2CIO :: "i2cio \<Rightarrow> i2cio" where
  "I2CIO s = s\<lparr>i2cAddr := 0x0, dirMask := 0xFF, shadow := 0x0, initialised := False\<rparr>"

definition I2CIO_write :: "u8 \<Rightarrow> u8 \<Rightarrow> i2cio \<Rightarrow> wire \<Rightarrow> int \<times> i2cio \<times> wire" where
  "I2CIO_write cmd v s w =
     (if initialised s then
        (let s1 = s\<lparr>shadow := v AND NOT (dirMask s)\<rparr>;
             w1 = beginTransmission (i2cAddr s1) w;
             w2 = (if chipType s1 = 0 then wire_write cmd w1 else w1);
             w3 = wire_write (shadow s1) w2;
             (status, w4) = endTransmission w3
         in ((if uint status = 0 then 1 else 0), s1, w4))
      else (1, s, w))"

text \<open>
  \<open>digitalWrite\<close> passes the register constant \<open>MCP23008_GPIO\<close> of the missing header
  to \<open>write\<close>; it is the first parameter here.
\<close>

definition I2CIO_digitalWrite :: "u8 \<Rightarrow> u8 \<Rightarrow> u8 \<Rightarrow> i2cio \<Rightarrow> wire \<Rightarrow> int \<times> i2cio \<times> wire" where
  "I2CIO_digitalWrite MCP23008_GPIO pin level s w =
     (if initialised s \<and> pin \<le> 7 then
        (let writeVal = pin_mask pin AND NOT (dirMask s);
             s1 = (if level = HIGH then s\<lparr>shadow := shadow s OR writeVal\<rparr>
                   else s\<lparr>shadow := shadow s AND NOT writeVal\<rparr>)
         in I2CIO_write MCP23008_GPIO (shadow s1) s1 w)
      else (0, s, w))"

text \<open>The bytes handed to \<open>Wire.write\<close> among a sequence of calls, in order.\<close>

fun written :: "wire_event list \<Rightarrow> u8 list" where
  "written [] = []"
| "written (WireWrite v # rest) = v # written rest"
| "written (e # rest) = written rest"

section \<open>Notions used to state the properties\<close>

subsection \<open>The address scan\<close>

text \<open>
  The open/close probe of one address on a bus \<open>w\<close>: whether it is acknowledged, and
  the bus after it.
\<close>

definition probe_ack :: "u8 \<Rightarrow> wire \<Rightarrow> bool" where
  "probe_ack a w \<longleftrightarrow> fst (endTransmission (beginTransmission a w)) = 0"

definition after_probe :: "u8 \<Rightarrow> wire \<Rightarrow> wire" where
  "after_probe a w = snd (endTransmission (beginTransmission a w))"

text \<open>
  An address is positively identified on \<open>w\<close> when its probe is acknowledged and the
  identification that follows gives a known chip type.
\<close>

definition identified :: "u8 \<Rightarrow> wire \<Rightarrow> bool" where
  "identified a w \<longleftrightarrow>
     probe_ack a w \<and> fst (IdentifyIOexp a (after_probe a w)) \<noteq> IIC_UNKNOWN"

text \<open>
  The bus after the scan has dealt with address \<open>a\<close>: the probe, and the
  identification when the probe was acknowledged. \<open>scan_upto k w\<close> is the bus when the
  scan, started on \<open>w\<close>, has dealt with the addresses \<open>0, \<dots>, k - 1\<close> in this order.
\<close>

definition scan_step :: "u8 \<Rightarrow> wire \<Rightarrow> wire" where
  "scan_step a w =
     (if probe_ack a w then snd (IdentifyIOexp a (after_probe a w)) else after_probe a w)"

fun scan_upto :: "nat \<Rightarrow> wire \<Rightarrow> wire" where
  "scan_upto 0 w = w"
| "scan_upto (Suc k) w = scan_step (of_nat k) (scan_upto k w)"

subsection \<open>The calls of one LCD transaction\<close>

text \<open>The enable pulse for a rendered byte, and the register pointer of the MCP23008.\<close>

definition pulse_calls :: "lcd \<Rightarrow> u8 \<Rightarrow> wire_event list" where
  "pulse_calls s rendered =
     [WireWrite (rendered OR En s), WireWrite (rendered AND NOT (En s))]"

definition olat_calls :: "lcd \<Rightarrow> wire_event list" where
  "olat_calls s = (if iicType s = IIC_MCP23008 then [WireWrite 0x0A] else [])"

text \<open>The union of the configured pin bits.\<close>

definition pin_union :: "lcd \<Rightarrow> u8" where
  "pin_union s =
     En s OR Rw s OR Rs s OR data_pins s 0 OR data_pins s 1 OR data_pins s 2
       OR data_pins s 3 OR backlightPinMask s"

subsection \<open>Concrete instances and buses\<close>

text \<open>
  The constructors: the explicit one without and the one with backlight control. They
  run on an object whose members hold whatever the memory held before.
\<close>

definition LiquidCrystal_IIC ::
  "u8 \<Rightarrow> iicChipType \<Rightarrow> u8 \<Rightarrow> u8 \<Rightarrow> u8 \<Rightarrow> u8 \<Rightarrow> u8 \<Rightarrow> u8 \<Rightarrow> u8 \<Rightarrow> lcd \<Rightarrow> lcd" where
  "LiquidCrystal_IIC iic_addr iic_type en rw rs d4 d5 d6 d7 s =
     config iic_addr iic_type en rw rs d4 d5 d6 d7 s"

definition LiquidCrystal_IIC_bl ::
  "u8 \<Rightarrow> iicChipType \<Rightarrow> u8 \<Rightarrow> u8 \<Rightarrow> u8 \<Rightarrow> u8 \<Rightarrow> u8 \<Rightarrow> u8 \<Rightarrow> u8 \<Rightarrow> u8 \<Rightarrow> t_backlighPol
   \<Rightarrow> lcd \<Rightarrow> lcd" where
  "LiquidCrystal_IIC_bl iic_addr iic_type en rw rs d4 d5 d6 d7 backlightPin pol s =
     setBacklightPin backlightPin pol (config iic_addr iic_type en rw rs d4 d5 d6 d7 s)"

definition raw_lcd :: lcd where
  "raw_lcd = \<lparr>Addr = 0, iicType = IIC_UNKNOWN, backlightPinMask = 0, backlightStsMask = 0,
              polarity = POSITIVE, En = 0, Rw = 0, Rs = 0, data_pins = (\<lambda>i. 0),
              displayfunction = 0\<rparr>"

text \<open>The boards \<open>IIC_BOARD_EXTRAIO\<close>, \<open>IIC_BOARD_LCM1602\<close> and \<open>IIC_BOARD_ADAFRUIT\<close>.\<close>

definition board_extraio :: "u8 \<Rightarrow> lcd" where
  "board_extraio a = LiquidCrystal_IIC a IIC_PCF8574 6 5 4 0 1 2 3 raw_lcd"

definition board_lcm1602 :: "u8 \<Rightarrow> lcd" where
  "board_lcm1602 a = LiquidCrystal_IIC_bl a IIC_PCF8574 2 1 0 4 5 6 7 3 NEGATIVE raw_lcd"

definition board_adafruit :: "u8 \<Rightarrow> lcd" where
  "board_adafruit a = LiquidCrystal_IIC_bl a IIC_MCP23008 2 0 1 3 4 5 6 7 POSITIVE raw_lcd"

text \<open>
  The constructor without chip type, which leaves the type to be detected, with the
  wiring of the first board.
\<close>

definition board_autodetect :: "u8 \<Rightarrow> lcd" where
  "board_autodetect a = LiquidCrystal_IIC a IIC_UNKNOWN 6 5 4 0 1 2 3 raw_lcd"

text \<open>
  A bus on which every transaction is acknowledged and every read delivers the byte
  \<open>d\<close>; a bus on which nothing acknowledges; and a bus with two devices: one at 0x20
  that acknowledges and reads back 0x55, and a PCF8574 at 0x25 that reads back 0x00.
\<close>

definition steady_wire :: "u8 \<Rightarrow> wire" where
  "steady_wire d = \<lparr>calls = [], endStatus = (\<lambda>cs. 0), readData = (\<lambda>cs. d)\<rparr>"

definition silent_wire :: wire where
  "silent_wire = \<lparr>calls = [], endStatus = (\<lambda>cs. 2), readData = (\<lambda>cs. 0xff)\<rparr>"

definition last_call :: "wire_event list \<Rightarrow> wire_event option" where
  "last_call cs = (case rev cs of [] \<Rightarrow> None | e # rest \<Rightarrow> Some e)"

definition two_device_wire :: wire where
  "two_device_wire =
     \<lparr>calls = [],
      endStatus = (\<lambda>cs. case last_call cs of
                           Some (BeginTransmission a) \<Rightarrow> if a = 0x20 \<or> a = 0x25 then 0 else 2
                         | _ \<Rightarrow> 0),
      readData = (\<lambda>cs. case last_call cs of
                          Some (RequestFrom a n) \<Rightarrow> if a = 0x25 then 0x00 else 0x55
                        | _ \<Rightarrow> 0xff)\<rparr>"

text \<open>
  A bus on which everything is acknowledged and whose device reads back 0x00 the
  first time and 0x55 on every later read.
\<close>

definition fickle_wire :: wire where
  "fickle_wire =
     \<lparr>calls = [], endStatus = (\<lambda>cs. 0),
      readData = (\<lambda>cs. if WireRead \<in> set cs then 0x55 else 0x00)\<rparr>"

definition raw_i2cio :: i2cio where
  "raw_i2cio = \<lparr>i2cAddr = 0, dirMask = 0, shadow = 0, initialised = False, chipType = 1\<rparr>"

section \<open>Basic facts about the bus operations\<close>

declare LocateDevice_loop.simps [simp del]
declare write4bits_loop.simps [simp del]

lemmas wire_ops =
  wire_begin_def wire_begin_addr_def beginTransmission_def wire_write_def
  endTransmission_def requestFrom_def wire_read_def

lemma IdentifyIOexp_eq:
  "IdentifyIOexp address w =
     ((let data = readData w (calls w @ probe_calls address)
       in if data = 0xff then IIC_MCP23008
          else if data = 0x00 then IIC_PCF8574
          else IIC_UNKNOWN),
      w\<lparr>calls := calls w @ probe_calls address @ [WireRead]\<rparr>)"
  by (simp add: IdentifyIOexp_def probe_calls_def wire_ops Let_def)

section \<open>Chip identification\<close>

text \<open>
  C1. \<open>IdentifyIOexp\<close> makes exactly these calls in this order: a transaction writing
  0x00 then 0xFF, a second transaction writing 0x00, a request for one byte and its
  read. The byte read back decides the result: 0xFF is the MCP23008, 0x00 is the
  PCF8574, every other byte (0x01, 0x7F and 0x80 among them) is the Unknown value. The
  function is total: it always returns one of the three chip types and no error.
\<close>

theorem IdentifyIOexp_probe_and_classify:
  "calls (snd (IdentifyIOexp address w)) =
     calls w @ [BeginTransmission address, WireWrite 0x00, WireWrite 0xff, EndTransmission,
                BeginTransmission address, WireWrite 0x00, EndTransmission,
                RequestFrom address 1, WireRead]
   \<and> (\<forall>data. readData w (calls w @
               [BeginTransmission address, WireWrite 0x00, WireWrite 0xff, EndTransmission,
                BeginTransmission address, WireWrite 0x00, EndTransmission,
                RequestFrom address 1]) = data \<longrightarrow>
         (data = 0xff \<longrightarrow> fst (IdentifyIOexp address w) = IIC_MCP23008)
       \<and> (data = 0x00 \<longrightarrow> fst (IdentifyIOexp address w) = IIC_PCF8574)
       \<and> (data \<noteq> 0xff \<and> data \<noteq> 0x00 \<longrightarrow> fst (IdentifyIOexp address w) = IIC_UNKNOWN)
       \<and> (data \<in> {0x01, 0x7f, 0x80} \<longrightarrow> fst (IdentifyIOexp address w) = IIC_UNKNOWN))"
  by (auto simp add: IdentifyIOexp_def wire_ops Let_def)

theorem IdentifyIOexp_probe_and_classify_witness:
  "fst (IdentifyIOexp 0x27 (steady_wire 0x7f)) = IIC_UNKNOWN
   \<and> fst (IdentifyIOexp 0x27 (steady_wire 0xff)) = IIC_MCP23008
   \<and> fst (IdentifyIOexp 0x27 (steady_wire 0x00)) = IIC_PCF8574
   \<and> calls (snd (IdentifyIOexp 0x27 (steady_wire 0x7f))) =
       [BeginTransmission 0x27, WireWrite 0x00, WireWrite 0xff, EndTransmission,
        BeginTransmission 0x27, WireWrite 0x00, EndTransmission,
        RequestFrom 0x27 1, WireRead]"
  using IdentifyIOexp_probe_and_classify [of "0x27" "steady_wire 0x7f"]
    IdentifyIOexp_probe_and_classify [of "0x27" "steady_wire 0xff"]
    IdentifyIOexp_probe_and_classify [of "0x27" "steady_wire 0x00"]
  by (simp add: steady_wire_def)

section \<open>Device location\<close>

lemma LocateDevice_loop_step:
  "a \<le> 127 \<Longrightarrow>
   LocateDevice_loop a w =
     (if identified a w then (a, scan_step a w)
      else LocateDevice_loop (a + 1) (scan_step a w))"
  by (subst LocateDevice_loop.simps)
     (simp add: identified_def scan_step_def probe_ack_def after_probe_def Let_def
        split: prod.splits)

lemma LocateDevice_loop_exit:
  "\<not> a \<le> 127 \<Longrightarrow> LocateDevice_loop a w = (IIC_ADDR_UNKNOWN, w)"
  by (subst LocateDevice_loop.simps) simp

lemma of_nat_le_127: "k < 128 \<Longrightarrow> (of_nat k :: u8) \<le> 127"
  by (simp add: word_le_nat_alt unat_of_nat)

text \<open>No address from \<open>n\<close> on is identified: the loop runs to 128 and gives the sentinel.\<close>

lemma loop_miss:
  "n \<le> 128 \<Longrightarrow>
   (\<forall>k. n \<le> k \<and> k < 128 \<longrightarrow> \<not> identified (of_nat k) (scan_upto k w)) \<Longrightarrow>
   LocateDevice_loop (of_nat n) (scan_upto n w) = (IIC_ADDR_UNKNOWN, scan_upto 128 w)"
proof (induction n rule: inc_induct)
  case base
  show ?case
    by (simp add: LocateDevice_loop_exit del: scan_upto.simps)
next
  case (step n)
  from step.hyps have a: "(of_nat n :: u8) \<le> 127"
    by (simp add: of_nat_le_127)
  from step.prems step.hyps have "\<not> identified (of_nat n) (scan_upto n w)"
    by simp
  with a have "LocateDevice_loop (of_nat n) (scan_upto n w) =
      LocateDevice_loop (of_nat (Suc n)) (scan_upto (Suc n) w)"
    by (simp add: LocateDevice_loop_step add.commute)
  also have "\<dots> = (IIC_ADDR_UNKNOWN, scan_upto 128 w)"
    using step.prems by (intro step.IH) simp
  finally show ?case .
qed

text \<open>The first identified address from \<open>n\<close> on is \<open>m\<close>: the loop stops there.\<close>

lemma loop_hit:
  "n \<le> m \<Longrightarrow> m < 128 \<Longrightarrow> identified (of_nat m) (scan_upto m w) \<Longrightarrow>
   (\<forall>k. n \<le> k \<and> k < m \<longrightarrow> \<not> identified (of_nat k) (scan_upto k w)) \<Longrightarrow>
   LocateDevice_loop (of_nat n) (scan_upto n w) = (of_nat m, scan_upto (Suc m) w)"
proof (induction n rule: inc_induct)
  case base
  then show ?case
    by (simp add: LocateDevice_loop_step of_nat_le_127)
next
  case (step n)
  from step.hyps step.prems have a: "(of_nat n :: u8) \<le> 127"
    by (simp add: of_nat_le_127)
  from step.prems step.hyps have "\<not> identified (of_nat n) (scan_upto n w)"
    by simp
  with a have "LocateDevice_loop (of_nat n) (scan_upto n w) =
      LocateDevice_loop (of_nat (Suc n)) (scan_upto (Suc n) w)"
    by (simp add: LocateDevice_loop_step add.commute)
  also have "\<dots> = (of_nat m, scan_upto (Suc m) w)"
    using step.prems by (intro step.IH) simp_all
  finally show ?case .
qed

lemma LocateDevice_miss:
  "(\<forall>k<128. \<not> identified (of_nat k) (scan_upto k w)) \<Longrightarrow>
   LocateDevice w = (IIC_ADDR_UNKNOWN, scan_upto 128 w)"
  using loop_miss [of 0 w] by (simp add: LocateDevice_def)

lemma LocateDevice_hit:
  "m < 128 \<Longrightarrow> identified (of_nat m) (scan_upto m w) \<Longrightarrow>
   (\<forall>k<m. \<not> identified (of_nat k) (scan_upto k w)) \<Longrightarrow>
   LocateDevice w = (of_nat m, scan_upto (Suc m) w)"
  using loop_hit [of 0 m w] by (simp add: LocateDevice_def)

lemma scan_step_calls:
  "calls (scan_step a w) =
     calls w @ [BeginTransmission a, EndTransmission]
       @ (if probe_ack a w then probe_calls a @ [WireRead] else [])"
  by (simp add: scan_step_def after_probe_def IdentifyIOexp_eq wire_ops)

lemma scan_step_responses:
  "endStatus (scan_step a w) = endStatus w \<and> readData (scan_step a w) = readData w"
  by (simp add: scan_step_def after_probe_def IdentifyIOexp_eq wire_ops)

lemma scan_upto_responses:
  "endStatus (scan_upto k w) = endStatus w \<and> readData (scan_upto k w) = readData w"
  by (induction k) (simp_all add: scan_step_responses)

lemma identified_iff:
  "identified a w \<longleftrightarrow>
     endStatus w (calls w @ [BeginTransmission a]) = 0
     \<and> readData w (calls w @ [BeginTransmission a, EndTransmission] @ probe_calls a)
         \<in> {0xff, 0x00}"
  by (auto simp add: identified_def probe_ack_def after_probe_def IdentifyIOexp_eq wire_ops
      Let_def)

lemma of_nat_eq_numeral_u8:
  "k < 256 \<Longrightarrow> n < 256 \<Longrightarrow> (of_nat k :: u8) = of_nat n \<longleftrightarrow> k = n"
  by (simp add: word_of_nat_eq_iff take_bit_nat_eq_self)

lemma no_ack_not_identified:
  "endStatus w = (\<lambda>cs. 2) \<Longrightarrow> \<not> identified a (scan_upto k w)"
  by (simp add: identified_iff scan_upto_responses)

text \<open>
  C2. \<open>LocateDevice\<close> deals with the addresses 0, 1, \<dots>, 127 in ascending order, each
  with an open/close probe followed, when the probe is acknowledged, by
  \<open>IdentifyIOexp\<close>. It returns the first address that is positively identified (and
  stops there), passing over addresses that acknowledge without being identified;
  when none of the 128 addresses is positively identified it returns the sentinel
  0xFF after having probed all of them.
\<close>

theorem LocateDevice_first_identified:
  "((\<forall>k<128. \<not> identified (of_nat k) (scan_upto k w)) \<longrightarrow>
      LocateDevice w = (IIC_ADDR_UNKNOWN, scan_upto 128 w))
   \<and> (\<forall>m<128. identified (of_nat m) (scan_upto m w)
         \<and> (\<forall>k<m. \<not> identified (of_nat k) (scan_upto k w)) \<longrightarrow>
         LocateDevice w = (of_nat m, scan_upto (Suc m) w))
   \<and> (\<forall>k. calls (scan_upto (Suc k) w) =
         calls (scan_upto k w) @ [BeginTransmission (of_nat k), EndTransmission]
           @ (if probe_ack (of_nat k) (scan_upto k w)
              then probe_calls (of_nat k) @ [WireRead] else []))"
proof (intro conjI impI allI)
  assume "\<forall>k<128. \<not> identified (of_nat k) (scan_upto k w)"
  then show "LocateDevice w = (IIC_ADDR_UNKNOWN, scan_upto 128 w)"
    by (rule LocateDevice_miss)
next
  fix m :: nat
  assume "m < 128"
    and "identified (of_nat m) (scan_upto m w)
         \<and> (\<forall>k<m. \<not> identified (of_nat k) (scan_upto k w))"
  then show "LocateDevice w = (of_nat m, scan_upto (Suc m) w)"
    by (simp add: LocateDevice_hit)
next
  fix k
  show "calls (scan_upto (Suc k) w) =
      calls (scan_upto k w) @ [BeginTransmission (of_nat k), EndTransmission]
        @ (if probe_ack (of_nat k) (scan_upto k w)
           then probe_calls (of_nat k) @ [WireRead] else [])"
    by (simp add: scan_step_calls)
qed

lemma two_device_identified:
  "k < 128 \<Longrightarrow> identified (of_nat k) (scan_upto k two_device_wire) \<longleftrightarrow> k = 37"
proof -
  assume k: "k < 128"
  have "identified (of_nat k) (scan_upto k two_device_wire) \<longleftrightarrow> (of_nat k :: u8) = 0x25"
    by (simp add: identified_iff scan_upto_responses two_device_wire_def last_call_def
        probe_calls_def)
  also have "\<dots> \<longleftrightarrow> (of_nat k :: u8) = of_nat 37"
    by simp
  also have "\<dots> \<longleftrightarrow> k = 37"
    using k by (subst of_nat_eq_numeral_u8) simp_all
  finally show ?thesis .
qed

lemma two_device_ack_32:
  "probe_ack 0x20 (scan_upto 32 two_device_wire)"
  by (simp add: probe_ack_def wire_ops scan_upto_responses two_device_wire_def last_call_def)

theorem LocateDevice_first_identified_witness:
  "LocateDevice two_device_wire = (0x25, scan_upto 38 two_device_wire)
   \<and> probe_ack 0x20 (scan_upto 32 two_device_wire)
   \<and> \<not> identified 0x20 (scan_upto 32 two_device_wire)
   \<and> LocateDevice silent_wire = (IIC_ADDR_UNKNOWN, scan_upto 128 silent_wire)"
proof -
  have "endStatus silent_wire = (\<lambda>cs. 2)"
    by (simp add: silent_wire_def)
  then have none: "\<forall>k<128. \<not> identified (of_nat k) (scan_upto k silent_wire)"
    by (simp add: no_ack_not_identified del: scan_upto.simps)
  have silent: "LocateDevice silent_wire = (IIC_ADDR_UNKNOWN, scan_upto 128 silent_wire)"
    using LocateDevice_first_identified [of silent_wire, THEN conjunct1] none
    by blast
  have hit: "identified 37 (scan_upto 37 two_device_wire)"
    using two_device_identified [of 37] by (simp del: scan_upto.simps)
  have before: "\<forall>k<37. \<not> identified (of_nat k) (scan_upto k two_device_wire)"
    by (simp add: two_device_identified)
  note first =
    LocateDevice_first_identified [of two_device_wire, THEN conjunct2, THEN conjunct1,
      rule_format, of 37]
  have "LocateDevice two_device_wire = (of_nat 37, scan_upto (Suc 37) two_device_wire)"
    by (rule first) (simp_all add: hit before del: scan_upto.simps)
  moreover have "\<not> identified 32 (scan_upto 32 two_device_wire)"
    using two_device_identified [of 32] by (simp del: scan_upto.simps)
  ultimately show ?thesis
    using two_device_ack_32 silent by (simp del: scan_upto.simps)
qed

section \<open>Rendering a nibble\<close>

lemma low_bit_test: "(x AND 1 = 1) = bit x 0" for x :: u8
  by (simp add: and_one_eq mod_2_eq_odd bit_0)

text \<open>The four rounds of the loop, unrolled.\<close>

lemma write4bits_loop_unfold:
  "write4bits_loop s 0 v p =
     p OR (if bit v 0 then data_pins s 0 else 0)
       OR (if bit v 1 then data_pins s 1 else 0)
       OR (if bit v 2 then data_pins s 2 else 0)
       OR (if bit v 3 then data_pins s 3 else 0)"
proof -
  have b1: "bit (drop_bit 1 v) 0 = bit v 1"
    by (simp add: bit_drop_bit_eq)
  have b2: "bit (drop_bit 1 (drop_bit 1 v)) 0 = bit v 2"
    by (simp add: bit_drop_bit_eq numeral_2_eq_2)
  have b3: "bit (drop_bit 1 (drop_bit 1 (drop_bit 1 v))) 0 = bit v 3"
    by (simp add: bit_drop_bit_eq numeral_3_eq_3)
  have n: "Suc (Suc 0) = 2" "Suc 2 = 3" "Suc 3 = 4"
    by simp_all
  show ?thesis
    apply (subst write4bits_loop.simps)
    apply (subst write4bits_loop.simps)
    apply (subst write4bits_loop.simps)
    apply (subst write4bits_loop.simps)
    apply (subst write4bits_loop.simps)
    apply (simp only: low_bit_test b1 b2 b3 n)
    apply (simp add: or.assoc)
    done
qed

lemma pinMapValue_formula:
  "write4bits_pinMapValue v mode s =
     (if bit v 0 then data_pins s 0 else 0)
       OR (if bit v 1 then data_pins s 1 else 0)
       OR (if bit v 2 then data_pins s 2 else 0)
       OR (if bit v 3 then data_pins s 3 else 0)
       OR (if mode = DATA then Rs s else mode)
       OR backlightStsMask s"
  by (simp add: write4bits_pinMapValue_def write4bits_loop_unfold Let_def or.assoc)

lemma pinMapValue_within_union:
  assumes "mode \<in> {COMMAND, DATA}" and "backlightStsMask s \<in> {0, backlightPinMask s}"
  shows "write4bits_pinMapValue v mode s AND NOT (pin_union s) = 0"
  using assms
  by (auto simp: pinMapValue_formula pin_union_def COMMAND_def DATA_def bit_eq_iff
      bit_and_iff bit_or_iff bit_not_iff)

lemma write4bits_calls:
  "write4bits v mode s w =
     w\<lparr>calls := calls w @ pulse_calls s (write4bits_pinMapValue v mode s)\<rparr>"
  by (simp add: write4bits_def pulseEnable_def wire_write_def pulse_calls_def)

lemma enable_within_union: "En s AND NOT (pin_union s) = 0"
  by (auto simp: pin_union_def bit_eq_iff bit_and_iff bit_or_iff bit_not_iff)

text \<open>
  C4. Whatever the pin masks of the instance are (so in particular when enable, rw, rs
  and the four data lines sit on pairwise distinct positions in 0..7), for every
  nibble value, for mode Command or Data and for a backlight status mask that is 0
  or the configured backlight bit, the byte rendered by \<open>write4bits\<close>, and both bytes
  that it writes for the enable pulse, have no bit outside the union of the
  configured pin bits.
\<close>

theorem write4bits_within_pins:
  assumes "mode \<in> {COMMAND, DATA}"
    and "backlightStsMask s \<in> {0, backlightPinMask s}"
  shows "write4bits_pinMapValue v mode s AND NOT (pin_union s) = 0
    \<and> (write4bits_pinMapValue v mode s OR En s) AND NOT (pin_union s) = 0
    \<and> (write4bits_pinMapValue v mode s AND NOT (En s)) AND NOT (pin_union s) = 0
    \<and> calls (write4bits v mode s w) =
        calls w @ [WireWrite (write4bits_pinMapValue v mode s OR En s),
                   WireWrite (write4bits_pinMapValue v mode s AND NOT (En s))]"
proof -
  have r: "write4bits_pinMapValue v mode s AND NOT (pin_union s) = 0"
    using assms by (rule pinMapValue_within_union)
  have "(write4bits_pinMapValue v mode s OR En s) AND NOT (pin_union s) =
      (write4bits_pinMapValue v mode s AND NOT (pin_union s))
        OR (En s AND NOT (pin_union s))"
    by (simp add: bit.conj_disj_distrib2)
  then have hi: "(write4bits_pinMapValue v mode s OR En s) AND NOT (pin_union s) = 0"
    by (simp add: r enable_within_union)
  have "(write4bits_pinMapValue v mode s AND NOT (En s)) AND NOT (pin_union s) =
      (write4bits_pinMapValue v mode s AND NOT (pin_union s)) AND NOT (En s)"
    by (simp add: ac_simps)
  then have lo: "(write4bits_pinMapValue v mode s AND NOT (En s)) AND NOT (pin_union s) = 0"
    by (simp add: r)
  show ?thesis
    by (simp add: r hi lo write4bits_calls pulse_calls_def)
qed

lemma board_lcm1602_fields:
  "En (board_lcm1602 a) = 0x04 \<and> Rw (board_lcm1602 a) = 0x02 \<and> Rs (board_lcm1602 a) = 0x01
   \<and> data_pins (board_lcm1602 a) 0 = 0x10 \<and> data_pins (board_lcm1602 a) 1 = 0x20
   \<and> data_pins (board_lcm1602 a) (Suc 0) = 0x20
   \<and> data_pins (board_lcm1602 a) 2 = 0x40 \<and> data_pins (board_lcm1602 a) 3 = 0x80
   \<and> backlightPinMask (board_lcm1602 a) = 0x08 \<and> backlightStsMask (board_lcm1602 a) = 0
   \<and> polarity (board_lcm1602 a) = NEGATIVE \<and> Addr (board_lcm1602 a) = a
   \<and> iicType (board_lcm1602 a) = IIC_PCF8574"
  by (simp add: board_lcm1602_def LiquidCrystal_IIC_bl_def setBacklightPin_def config_def
      pin_mask_def raw_lcd_def)

theorem write4bits_within_pins_witness:
  "write4bits_pinMapValue 0x0F DATA (board_lcm1602 0x27) = 0xF1
   \<and> pin_union (board_lcm1602 0x27) = 0xFF
   \<and> write4bits_pinMapValue 0x0F DATA (board_lcm1602 0x27)
        AND NOT (pin_union (board_lcm1602 0x27)) = 0
   \<and> calls (write4bits 0x0F DATA (board_lcm1602 0x27) (steady_wire 0)) =
        [WireWrite 0xF5, WireWrite 0xF1]"
proof -
  have m: "DATA \<in> {COMMAND, DATA}"
    by simp
  have b: "backlightStsMask (board_lcm1602 0x27) \<in> {0, backlightPinMask (board_lcm1602 0x27)}"
    by (simp add: board_lcm1602_fields)
  have v: "write4bits_pinMapValue 0x0F DATA (board_lcm1602 0x27) = 0xF1"
    by (simp add: pinMapValue_formula board_lcm1602_fields)
  have u: "pin_union (board_lcm1602 0x27) = 0xFF"
    by (simp add: pin_union_def board_lcm1602_fields)
  show ?thesis
    using write4bits_within_pins [OF m b, of "0x0F" "steady_wire 0"]
    by (simp add: v u board_lcm1602_fields steady_wire_def)
qed

text \<open>
  C5. For mode Command or Data the rendered byte is the OR of \<open>_data_pins[i]\<close> for each
  set bit \<open>i\<close> of the nibble (bits 0 to 3, lowest first), of the register-select bit
  exactly in Data mode, and of the backlight status mask in every case. In particular
  the nibble 0b1010 in Data mode with backlight status mask 0 renders as
  \<open>_data_pins[1] | _data_pins[3] | _Rs\<close>.
\<close>

theorem write4bits_rendered_byte:
  assumes "mode \<in> {COMMAND, DATA}"
  shows "write4bits_pinMapValue v mode s =
      (if bit v 0 then data_pins s 0 else 0)
        OR (if bit v 1 then data_pins s 1 else 0)
        OR (if bit v 2 then data_pins s 2 else 0)
        OR (if bit v 3 then data_pins s 3 else 0)
        OR (if mode = DATA then Rs s else 0)
        OR backlightStsMask s
    \<and> (backlightStsMask s = 0 \<longrightarrow>
        write4bits_pinMapValue 0x0A DATA s = data_pins s 1 OR data_pins s 3 OR Rs s)"
proof -
  from assms have "(if mode = DATA then Rs s else mode) = (if mode = DATA then Rs s else 0)"
    by (auto simp: COMMAND_def)
  then have "write4bits_pinMapValue v mode s =
      (if bit v 0 then data_pins s 0 else 0)
        OR (if bit v 1 then data_pins s 1 else 0)
        OR (if bit v 2 then data_pins s 2 else 0)
        OR (if bit v 3 then data_pins s 3 else 0)
        OR (if mode = DATA then Rs s else 0)
        OR backlightStsMask s"
    by (simp add: pinMapValue_formula)
  moreover have "backlightStsMask s = 0 \<longrightarrow>
      write4bits_pinMapValue 0x0A DATA s = data_pins s 1 OR data_pins s 3 OR Rs s"
    by (simp add: pinMapValue_formula)
  ultimately show ?thesis
    by (rule conjI)
qed

theorem write4bits_rendered_byte_witness:
  "write4bits_pinMapValue 0x0A DATA (board_lcm1602 0x27) =
     data_pins (board_lcm1602 0x27) 1 OR data_pins (board_lcm1602 0x27) 3
       OR Rs (board_lcm1602 0x27)
   \<and> write4bits_pinMapValue 0x0A DATA (board_lcm1602 0x27) = 0xA1"
proof -
  have m: "DATA \<in> {COMMAND, DATA}"
    by simp
  have "write4bits_pinMapValue 0x0A DATA (board_lcm1602 0x27) =
      data_pins (board_lcm1602 0x27) 1 OR data_pins (board_lcm1602 0x27) 3
        OR Rs (board_lcm1602 0x27)"
    using write4bits_rendered_byte [OF m, of _ "board_lcm1602 0x27", THEN conjunct2]
    by (simp add: board_lcm1602_fields)
  then show ?thesis
    by (simp add: board_lcm1602_fields)
qed

section \<open>Sending a byte\<close>

lemma send_full_byte:
  "Addr s \<noteq> IIC_ADDR_UNKNOWN \<Longrightarrow> mode \<noteq> FOUR_BITS \<Longrightarrow>
   \<not> (mode = DATA \<and> (v = 0x0D \<or> v = 0x0A)) \<Longrightarrow>
   send v mode s w =
     (s, w\<lparr>calls := calls w @ [BeginTransmission (Addr s)] @ olat_calls s
             @ pulse_calls s (write4bits_pinMapValue (drop_bit 4 v) mode s)
             @ pulse_calls s (write4bits_pinMapValue (v AND 0x0F) mode s)
             @ [EndTransmission]\<rparr>)"
  by (auto simp add: send_def write4bits_calls olat_calls_def wire_ops Let_def)

lemma send_four_bits:
  "Addr s \<noteq> IIC_ADDR_UNKNOWN \<Longrightarrow>
   send v FOUR_BITS s w =
     (s, w\<lparr>calls := calls w @ [BeginTransmission (Addr s)] @ olat_calls s
             @ pulse_calls s (write4bits_pinMapValue (v AND 0x0F) COMMAND s)
             @ [EndTransmission]\<rparr>)"
  by (simp add: send_def write4bits_calls olat_calls_def wire_ops Let_def)

lemma send_unresolved: "Addr s = IIC_ADDR_UNKNOWN \<Longrightarrow> send v mode s w = (s, w)"
  by (simp add: send_def)

lemma send_cr_lf: "v = 0x0D \<or> v = 0x0A \<Longrightarrow> send v DATA s w = (s, w)"
  by (auto simp add: send_def DATA_def FOUR_BITS_def)

lemma written_append: "written (xs @ ys) = written xs @ written ys"
  by (induction xs rule: written.induct) simp_all

lemma board_extraio_fields:
  "En (board_extraio a) = 0x40 \<and> Rw (board_extraio a) = 0x20 \<and> Rs (board_extraio a) = 0x10
   \<and> data_pins (board_extraio a) 0 = 0x01 \<and> data_pins (board_extraio a) 1 = 0x02
   \<and> data_pins (board_extraio a) (Suc 0) = 0x02
   \<and> data_pins (board_extraio a) 2 = 0x04 \<and> data_pins (board_extraio a) 3 = 0x08
   \<and> backlightPinMask (board_extraio a) = 0 \<and> backlightStsMask (board_extraio a) = 0
   \<and> polarity (board_extraio a) = POSITIVE \<and> Addr (board_extraio a) = a
   \<and> iicType (board_extraio a) = IIC_PCF8574"
  by (simp add: board_extraio_def LiquidCrystal_IIC_def config_def pin_mask_def raw_lcd_def)

lemma board_adafruit_fields:
  "En (board_adafruit a) = 0x04 \<and> Rw (board_adafruit a) = 0x01 \<and> Rs (board_adafruit a) = 0x02
   \<and> data_pins (board_adafruit a) 0 = 0x08 \<and> data_pins (board_adafruit a) 1 = 0x10
   \<and> data_pins (board_adafruit a) (Suc 0) = 0x10
   \<and> data_pins (board_adafruit a) 2 = 0x20 \<and> data_pins (board_adafruit a) 3 = 0x40
   \<and> backlightPinMask (board_adafruit a) = 0x80 \<and> backlightStsMask (board_adafruit a) = 0
   \<and> polarity (board_adafruit a) = POSITIVE \<and> Addr (board_adafruit a) = a
   \<and> iicType (board_adafruit a) = IIC_MCP23008"
  by (simp add: board_adafruit_def LiquidCrystal_IIC_bl_def setBacklightPin_def config_def
      pin_mask_def raw_lcd_def)

text \<open>
  C3, as the code has it. With a resolved address, every full-byte send in Command
  mode, and every full-byte send in Data mode of a value other than 0x0D and 0x0A,
  opens one transaction and within it transmits the OLAT pointer byte 0x0A exactly
  when the chip type is MCP23008, then the high nibble followed by the low nibble,
  each as the write of \<open>rendered | _En\<close> immediately followed by \<open>rendered & ~_En\<close>, and
  closes the transaction; the instance is unchanged. In \<open>FOUR_BITS\<close> mode only the
  low nibble of the value is sent, rendered as a command.
\<close>

theorem send_transaction_layout:
  assumes "Addr s \<noteq> IIC_ADDR_UNKNOWN"
  shows "(mode \<in> {COMMAND, DATA} \<and> \<not> (mode = DATA \<and> (v = 0x0D \<or> v = 0x0A)) \<longrightarrow>
      send v mode s w =
        (let hi = write4bits_pinMapValue (drop_bit 4 v) mode s;
             lo = write4bits_pinMapValue (v AND 0x0F) mode s
         in (s, w\<lparr>calls := calls w @ [BeginTransmission (Addr s)]
                     @ (if iicType s = IIC_MCP23008 then [WireWrite 0x0A] else [])
                     @ [WireWrite (hi OR En s), WireWrite (hi AND NOT (En s)),
                        WireWrite (lo OR En s), WireWrite (lo AND NOT (En s)),
                        EndTransmission]\<rparr>)))
    \<and> send v FOUR_BITS s w =
        (let lo = write4bits_pinMapValue (v AND 0x0F) COMMAND s
         in (s, w\<lparr>calls := calls w @ [BeginTransmission (Addr s)]
                     @ (if iicType s = IIC_MCP23008 then [WireWrite 0x0A] else [])
                     @ [WireWrite (lo OR En s), WireWrite (lo AND NOT (En s)),
                        EndTransmission]\<rparr>))"
proof (intro conjI impI)
  assume m: "mode \<in> {COMMAND, DATA} \<and> \<not> (mode = DATA \<and> (v = 0x0D \<or> v = 0x0A))"
  then have "mode \<noteq> FOUR_BITS"
    by (auto simp: COMMAND_def DATA_def FOUR_BITS_def)
  with assms m show "send v mode s w =
      (let hi = write4bits_pinMapValue (drop_bit 4 v) mode s;
           lo = write4bits_pinMapValue (v AND 0x0F) mode s
       in (s, w\<lparr>calls := calls w @ [BeginTransmission (Addr s)]
                   @ (if iicType s = IIC_MCP23008 then [WireWrite 0x0A] else [])
                   @ [WireWrite (hi OR En s), WireWrite (hi AND NOT (En s)),
                      WireWrite (lo OR En s), WireWrite (lo AND NOT (En s)),
                      EndTransmission]\<rparr>))"
    by (simp add: send_full_byte olat_calls_def pulse_calls_def Let_def)
next
  from assms show "send v FOUR_BITS s w =
      (let lo = write4bits_pinMapValue (v AND 0x0F) COMMAND s
       in (s, w\<lparr>calls := calls w @ [BeginTransmission (Addr s)]
                   @ (if iicType s = IIC_MCP23008 then [WireWrite 0x0A] else [])
                   @ [WireWrite (lo OR En s), WireWrite (lo AND NOT (En s)),
                      EndTransmission]\<rparr>))"
    by (simp add: send_four_bits olat_calls_def pulse_calls_def Let_def)
qed

theorem send_transaction_layout_witness:
  "calls (snd (send 0x28 COMMAND (board_extraio 0x38) (steady_wire 0))) =
     [BeginTransmission 0x38, WireWrite 0x42, WireWrite 0x02, WireWrite 0x48, WireWrite 0x08,
      EndTransmission]
   \<and> calls (snd (send 0x41 DATA (board_adafruit 0x20) (steady_wire 0))) =
     [BeginTransmission 0x20, WireWrite 0x0A, WireWrite 0x26, WireWrite 0x22,
      WireWrite 0x0E, WireWrite 0x0A, EndTransmission]
   \<and> calls (snd (send 0x03 FOUR_BITS (board_adafruit 0x20) (steady_wire 0))) =
     [BeginTransmission 0x20, WireWrite 0x0A, WireWrite 0x1C, WireWrite 0x18,
      EndTransmission]"
proof -
  have a: "Addr (board_extraio 0x38) \<noteq> IIC_ADDR_UNKNOWN"
    by (simp add: board_extraio_fields IIC_ADDR_UNKNOWN_def)
  have b: "Addr (board_adafruit 0x20) \<noteq> IIC_ADDR_UNKNOWN"
    by (simp add: board_adafruit_fields IIC_ADDR_UNKNOWN_def)
  have c: "COMMAND \<in> {COMMAND, DATA} \<and> \<not> (COMMAND = DATA \<and> ((0x28 :: u8) = 0x0D \<or> (0x28 :: u8) = 0x0A))"
    by (simp add: COMMAND_def DATA_def)
  have d: "DATA \<in> {COMMAND, DATA} \<and> \<not> (DATA = DATA \<and> ((0x41 :: u8) = 0x0D \<or> (0x41 :: u8) = 0x0A))"
    by simp
  have "calls (snd (send 0x28 COMMAND (board_extraio 0x38) (steady_wire 0))) =
     [BeginTransmission 0x38, WireWrite 0x42, WireWrite 0x02, WireWrite 0x48, WireWrite 0x08,
      EndTransmission]"
    using send_transaction_layout [OF a, of COMMAND "0x28" "steady_wire 0", THEN conjunct1] c
    by (simp add: pinMapValue_formula board_extraio_fields steady_wire_def Let_def
        COMMAND_def DATA_def)
  moreover have "calls (snd (send 0x41 DATA (board_adafruit 0x20) (steady_wire 0))) =
     [BeginTransmission 0x20, WireWrite 0x0A, WireWrite 0x26, WireWrite 0x22,
      WireWrite 0x0E, WireWrite 0x0A, EndTransmission]"
    using send_transaction_layout [OF b, of DATA "0x41" "steady_wire 0", THEN conjunct1] d
    by (simp add: pinMapValue_formula board_adafruit_fields steady_wire_def Let_def)
  moreover have "calls (snd (send 0x03 FOUR_BITS (board_adafruit 0x20) (steady_wire 0))) =
     [BeginTransmission 0x20, WireWrite 0x0A, WireWrite 0x1C, WireWrite 0x18,
      EndTransmission]"
    using send_transaction_layout [OF b, of _ "0x03" "steady_wire 0", THEN conjunct2]
    by (simp add: pinMapValue_formula board_adafruit_fields steady_wire_def Let_def
        COMMAND_def DATA_def)
  ultimately show ?thesis
    by simp
qed

text \<open>
  The specification states this for every full-byte send in Data mode. On an instance
  with the resolved address 0x38 the Data-mode send of 0x0D opens no transaction at
  all: the bus has seen no call afterwards.
\<close>

theorem send_every_data_byte_counterexample:
  "Addr (board_extraio 0x38) \<noteq> IIC_ADDR_UNKNOWN
   \<and> DATA \<noteq> FOUR_BITS
   \<and> calls (snd (send 0x0D DATA (board_extraio 0x38) (steady_wire 0))) = []"
proof -
  have "calls (snd (send 0x0D DATA (board_extraio 0x38) (steady_wire 0))) = []"
    by (simp add: send_cr_lf steady_wire_def)
  moreover have "DATA \<noteq> FOUR_BITS"
    by (simp add: DATA_def FOUR_BITS_def)
  ultimately show ?thesis
    by (simp add: board_extraio_fields IIC_ADDR_UNKNOWN_def)
qed

text \<open>
  C7. On every instance a Data-mode send of 0x0D or of 0x0A returns with the bus and
  the instance exactly as they were: no call is made on the bus. The same two
  values sent in Command mode on an instance with a resolved address are not
  discarded: four bytes are written, after the OLAT pointer on an MCP23008.
\<close>

theorem send_discards_cr_lf:
  "send 0x0D DATA s w = (s, w)
   \<and> send 0x0A DATA s w = (s, w)
   \<and> (Addr s \<noteq> IIC_ADDR_UNKNOWN \<longrightarrow>
        length (written (calls (snd (send 0x0D COMMAND s w)))) =
          length (written (calls w)) + (if iicType s = IIC_MCP23008 then 5 else 4)
      \<and> length (written (calls (snd (send 0x0A COMMAND s w)))) =
          length (written (calls w)) + (if iicType s = IIC_MCP23008 then 5 else 4))"
proof -
  have "Addr s \<noteq> IIC_ADDR_UNKNOWN \<Longrightarrow>
      length (written (calls (snd (send v COMMAND s w)))) =
        length (written (calls w)) + (if iicType s = IIC_MCP23008 then 5 else 4)" for v
    by (simp add: send_full_byte COMMAND_def DATA_def FOUR_BITS_def written_append
        olat_calls_def pulse_calls_def)
  then show ?thesis
    by (simp add: send_cr_lf)
qed

theorem send_discards_cr_lf_witness:
  "send 0x0D DATA (board_adafruit 0x20) (steady_wire 0) = (board_adafruit 0x20, steady_wire 0)
   \<and> send 0x0A DATA (board_adafruit 0x20) (steady_wire 0) = (board_adafruit 0x20, steady_wire 0)
   \<and> length (written (calls (snd (send 0x0D COMMAND (board_adafruit 0x20) (steady_wire 0))))) = 5
   \<and> length (written (calls (snd (send 0x0A COMMAND (board_adafruit 0x20) (steady_wire 0))))) = 5"
  using send_discards_cr_lf [of "board_adafruit 0x20" "steady_wire 0"]
  by (simp add: board_adafruit_fields IIC_ADDR_UNKNOWN_def steady_wire_def)

section \<open>Backlight\<close>

lemma steady_wire_calls: "calls (steady_wire d) = []"
  by (simp add: steady_wire_def)

lemma setBacklight_keeps_config:
  "backlightPinMask (fst (setBacklight v s w)) = backlightPinMask s
   \<and> polarity (fst (setBacklight v s w)) = polarity s
   \<and> Addr (fst (setBacklight v s w)) = Addr s
   \<and> iicType (fst (setBacklight v s w)) = iicType s"
  by (simp add: setBacklight_def wire_ops Let_def)

lemma setBacklight_sts:
  "backlightPinMask s \<noteq> 0 \<Longrightarrow>
   backlightStsMask (fst (setBacklight v s w)) =
     (if (polarity s = POSITIVE) = (v \<noteq> 0) then backlightPinMask s else 0)"
  by (cases "polarity s") (auto simp add: setBacklight_def wire_ops Let_def word_greater_zero_iff)

lemma setBacklight_calls:
  "backlightPinMask s \<noteq> 0 \<Longrightarrow>
   calls (snd (setBacklight v s w)) =
     calls w @ [BeginTransmission (Addr s)]
       @ (if iicType s = IIC_MCP23008 then [WireWrite 0x0A] else [])
       @ [WireWrite (backlightStsMask (fst (setBacklight v s w))), EndTransmission]"
  by (simp add: setBacklight_def wire_ops Let_def)

lemma setBacklights_snoc:
  "setBacklights (levels @ [v]) s w =
     setBacklight v (fst (setBacklights levels s w)) (snd (setBacklights levels s w))"
  by (induction levels arbitrary: s w) (simp_all add: split_beta)

lemma setBacklights_keeps_config:
  "backlightPinMask (fst (setBacklights levels s w)) = backlightPinMask s
   \<and> polarity (fst (setBacklights levels s w)) = polarity s"
  by (induction levels arbitrary: s w) (simp_all add: split_beta setBacklight_keeps_config)

text \<open>
  C8. On an instance with a non-zero backlight pin mask: \<open>setBacklight\<close> with a non-zero
  level leaves the status mask equal to the pin mask under Positive polarity and equal
  to 0 under Negative polarity; and after any run of \<open>setBacklight\<close> calls the status
  mask depends on the level of the last call and on the polarity only: it is the pin
  mask when the polarity is Positive and the level non-zero or the polarity is
  Negative and the level zero, and 0 otherwise.
\<close>

theorem setBacklight_status_mask:
  assumes "backlightPinMask s \<noteq> 0"
  shows "(polarity s = POSITIVE \<and> v \<noteq> 0 \<longrightarrow>
        backlightStsMask (fst (setBacklight v s w)) = backlightPinMask s)
    \<and> (polarity s = NEGATIVE \<and> v \<noteq> 0 \<longrightarrow>
        backlightStsMask (fst (setBacklight v s w)) = 0)
    \<and> backlightStsMask (fst (setBacklights (levels @ [v]) s w)) =
        (if (polarity s = POSITIVE) = (v \<noteq> 0) then backlightPinMask s else 0)"
proof -
  have one: "backlightStsMask (fst (setBacklight v s w)) =
      (if (polarity s = POSITIVE) = (v \<noteq> 0) then backlightPinMask s else 0)"
    using assms by (rule setBacklight_sts)
  let ?s1 = "fst (setBacklights levels s w)"
  have "backlightPinMask ?s1 \<noteq> 0"
    using assms by (simp add: setBacklights_keeps_config)
  then have "backlightStsMask (fst (setBacklights (levels @ [v]) s w)) =
      (if (polarity ?s1 = POSITIVE) = (v \<noteq> 0) then backlightPinMask ?s1 else 0)"
    unfolding setBacklights_snoc by (rule setBacklight_sts)
  then have many: "backlightStsMask (fst (setBacklights (levels @ [v]) s w)) =
      (if (polarity s = POSITIVE) = (v \<noteq> 0) then backlightPinMask s else 0)"
    by (simp only: setBacklights_keeps_config)
  from one many show ?thesis
    by simp
qed

theorem setBacklight_status_mask_witness:
  "backlightStsMask (fst (setBacklight 255 (board_adafruit 0x20) (steady_wire 0))) = 0x80
   \<and> backlightStsMask (fst (setBacklight 255 (board_lcm1602 0x27) (steady_wire 0))) = 0
   \<and> backlightStsMask
       (fst (setBacklights ([1, 0, 0, 1, 1] @ [0]) (board_lcm1602 0x27) (steady_wire 0))) = 0x08
   \<and> backlightStsMask
       (fst (setBacklights ([0, 1, 1, 0] @ [1]) (board_adafruit 0x20) (steady_wire 0))) = 0x80"
proof -
  have a: "backlightPinMask (board_adafruit 0x20) \<noteq> 0"
    by (simp add: board_adafruit_fields)
  have b: "backlightPinMask (board_lcm1602 0x27) \<noteq> 0"
    by (simp add: board_lcm1602_fields)
  show ?thesis
    using setBacklight_status_mask [OF a, of 255 "steady_wire 0" "[0, 1, 1, 0]"]
      setBacklight_status_mask [OF a, of 1 "steady_wire 0" "[0, 1, 1, 0]"]
      setBacklight_status_mask [OF b, of 255 "steady_wire 0" "[1, 0, 0, 1, 1]"]
      setBacklight_status_mask [OF b, of 0 "steady_wire 0" "[1, 0, 0, 1, 1]"]
    by (simp add: board_adafruit_fields board_lcm1602_fields del: setBacklights.simps)
qed

text \<open>
  C10. \<open>setBacklight\<close> does not look at the address. On every instance with a non-zero
  backlight pin mask it opens a transaction to \<open>_Addr\<close>, whatever that is, writes the
  OLAT pointer on an MCP23008 and then the new status mask, and closes the
  transaction. When the address is still the sentinel 0xFF (also on an instance that
  was only constructed) the transaction is addressed to 0xFF, while \<open>send\<close> on the
  same instance does nothing.
\<close>

theorem setBacklight_ignores_unresolved_address:
  assumes "backlightPinMask s \<noteq> 0"
  shows "calls (snd (setBacklight v s w)) =
      calls w @ [BeginTransmission (Addr s)]
        @ (if iicType s = IIC_MCP23008 then [WireWrite 0x0A] else [])
        @ [WireWrite (backlightStsMask (fst (setBacklight v s w))), EndTransmission]
    \<and> (Addr s = IIC_ADDR_UNKNOWN \<longrightarrow>
        calls (snd (setBacklight v s w)) =
          calls w @ [BeginTransmission 0xff]
            @ (if iicType s = IIC_MCP23008 then [WireWrite 0x0A] else [])
            @ [WireWrite (backlightStsMask (fst (setBacklight v s w))), EndTransmission]
        \<and> send x mode s w = (s, w))"
proof -
  have c: "calls (snd (setBacklight v s w)) =
      calls w @ [BeginTransmission (Addr s)]
        @ (if iicType s = IIC_MCP23008 then [WireWrite 0x0A] else [])
        @ [WireWrite (backlightStsMask (fst (setBacklight v s w))), EndTransmission]"
    using assms by (rule setBacklight_calls)
  show ?thesis
  proof (intro conjI impI)
    show "calls (snd (setBacklight v s w)) =
      calls w @ [BeginTransmission (Addr s)]
        @ (if iicType s = IIC_MCP23008 then [WireWrite 0x0A] else [])
        @ [WireWrite (backlightStsMask (fst (setBacklight v s w))), EndTransmission]"
      by (rule c)
  next
    assume u: "Addr s = IIC_ADDR_UNKNOWN"
    then have "Addr s = 0xff"
      by (simp add: IIC_ADDR_UNKNOWN_def)
    with c show "calls (snd (setBacklight v s w)) =
          calls w @ [BeginTransmission 0xff]
            @ (if iicType s = IIC_MCP23008 then [WireWrite 0x0A] else [])
            @ [WireWrite (backlightStsMask (fst (setBacklight v s w))), EndTransmission]"
      by simp
  next
    assume "Addr s = IIC_ADDR_UNKNOWN"
    then show "send x mode s w = (s, w)"
      by (rule send_unresolved)
  qed
qed

theorem setBacklight_ignores_unresolved_address_witness:
  "Addr (board_lcm1602 0xff) = IIC_ADDR_UNKNOWN
   \<and> calls (snd (setBacklight 0 (board_lcm1602 0xff) (steady_wire 0))) =
       [BeginTransmission 0xff, WireWrite 0x08, EndTransmission]
   \<and> calls (snd (setBacklight 1 (board_adafruit 0xff) (steady_wire 0))) =
       [BeginTransmission 0xff, WireWrite 0x0A, WireWrite 0x80, EndTransmission]
   \<and> send 0x41 DATA (board_lcm1602 0xff) (steady_wire 0) =
       (board_lcm1602 0xff, steady_wire 0)"
proof -
  have a: "backlightPinMask (board_adafruit 0xff) \<noteq> 0"
    by (simp add: board_adafruit_fields)
  have b: "backlightPinMask (board_lcm1602 0xff) \<noteq> 0"
    by (simp add: board_lcm1602_fields)
  have sa: "backlightStsMask (fst (setBacklight 1 (board_adafruit 0xff) (steady_wire 0))) = 0x80"
    by (simp add: setBacklight_sts board_adafruit_fields)
  have sb: "backlightStsMask (fst (setBacklight 0 (board_lcm1602 0xff) (steady_wire 0))) = 0x08"
    by (simp add: setBacklight_sts board_lcm1602_fields)
  show ?thesis
    using setBacklight_ignores_unresolved_address [OF a, of 1 "steady_wire 0" "0x41" DATA]
      setBacklight_ignores_unresolved_address [OF b, of 0 "steady_wire 0" "0x41" DATA]
    by (simp add: sa sb board_adafruit_fields board_lcm1602_fields steady_wire_calls
        IIC_ADDR_UNKNOWN_def)
qed

section \<open>Initialisation failures\<close>

lemma sends_unresolved: "Addr s = IIC_ADDR_UNKNOWN \<Longrightarrow> sends vs s w = (s, w)"
  by (induction vs arbitrary: w) (auto simp add: send_unresolved)

lemma init_address_unresolved:
  "Addr s = IIC_ADDR_UNKNOWN \<Longrightarrow> fst (LocateDevice (wire_begin w)) = IIC_ADDR_UNKNOWN \<Longrightarrow>
   init s w = (-1, s\<lparr>Addr := IIC_ADDR_UNKNOWN\<rparr>, snd (LocateDevice (wire_begin w)))"
  by (simp add: init_def Let_def split_beta)

lemma init_chip_unresolved:
  "Addr s \<noteq> IIC_ADDR_UNKNOWN \<Longrightarrow> iicType s = IIC_UNKNOWN \<Longrightarrow>
   fst (IdentifyIOexp (Addr s) (wire_begin w)) = IIC_UNKNOWN \<Longrightarrow>
   init s w = (-1, s\<lparr>iicType := IIC_UNKNOWN\<rparr>, snd (IdentifyIOexp (Addr s) (wire_begin w)))"
  by (simp add: init_def Let_def split_beta)

lemma init_status_unresolved:
  "init s w = (status, s', w') \<Longrightarrow>
   Addr s' = IIC_ADDR_UNKNOWN \<or> iicType s' = IIC_UNKNOWN \<Longrightarrow> status = -1"
  by (auto simp add: init_def Let_def split_beta split: if_splits)

lemma board_autodetect_fields:
  "En (board_autodetect a) = 0x40 \<and> Rw (board_autodetect a) = 0x20
   \<and> Rs (board_autodetect a) = 0x10
   \<and> data_pins (board_autodetect a) 0 = 0x01 \<and> data_pins (board_autodetect a) 1 = 0x02
   \<and> data_pins (board_autodetect a) (Suc 0) = 0x02
   \<and> data_pins (board_autodetect a) 2 = 0x04 \<and> data_pins (board_autodetect a) 3 = 0x08
   \<and> backlightPinMask (board_autodetect a) = 0 \<and> backlightStsMask (board_autodetect a) = 0
   \<and> polarity (board_autodetect a) = POSITIVE \<and> Addr (board_autodetect a) = a
   \<and> iicType (board_autodetect a) = IIC_UNKNOWN"
  by (simp add: board_autodetect_def LiquidCrystal_IIC_def config_def pin_mask_def raw_lcd_def)

lemma LocateDevice_silent:
  "fst (LocateDevice (wire_begin silent_wire)) = IIC_ADDR_UNKNOWN"
proof -
  have "endStatus (wire_begin silent_wire) = (\<lambda>cs. 2)"
    by (simp add: wire_begin_def silent_wire_def)
  then show ?thesis
    by (simp add: LocateDevice_miss no_ack_not_identified del: scan_upto.simps)
qed

lemma init_located_chip_unresolved:
  "Addr s = IIC_ADDR_UNKNOWN \<Longrightarrow> fst (LocateDevice (wire_begin w)) \<noteq> IIC_ADDR_UNKNOWN \<Longrightarrow>
   iicType s = IIC_UNKNOWN \<Longrightarrow>
   fst (IdentifyIOexp (fst (LocateDevice (wire_begin w))) (snd (LocateDevice (wire_begin w))))
     = IIC_UNKNOWN \<Longrightarrow>
   init s w =
     (-1, s\<lparr>Addr := fst (LocateDevice (wire_begin w)), iicType := IIC_UNKNOWN\<rparr>,
      snd (IdentifyIOexp (fst (LocateDevice (wire_begin w)))
             (snd (LocateDevice (wire_begin w)))))"
  by (simp add: init_def Let_def split_beta)

text \<open>On the path that reaches the expander set-up the status is that of a transaction.\<close>

lemma init_status_resolved:
  "init s w = (status, s', w') \<Longrightarrow>
   Addr s' \<noteq> IIC_ADDR_UNKNOWN \<Longrightarrow> iicType s' \<noteq> IIC_UNKNOWN \<Longrightarrow> 0 \<le> status"
  by (auto simp add: init_def Let_def split_beta split: if_splits)

text \<open>The final state is unresolved only on one of the three failing paths.\<close>

lemma init_unresolved_paths:
  "init s w = (status, s', w') \<Longrightarrow>
   Addr s' = IIC_ADDR_UNKNOWN \<or> iicType s' = IIC_UNKNOWN \<Longrightarrow>
   (Addr s = IIC_ADDR_UNKNOWN \<and> fst (LocateDevice (wire_begin w)) = IIC_ADDR_UNKNOWN)
   \<or> (Addr s \<noteq> IIC_ADDR_UNKNOWN \<and> iicType s = IIC_UNKNOWN
        \<and> fst (IdentifyIOexp (Addr s) (wire_begin w)) = IIC_UNKNOWN)
   \<or> (Addr s = IIC_ADDR_UNKNOWN \<and> fst (LocateDevice (wire_begin w)) \<noteq> IIC_ADDR_UNKNOWN
        \<and> iicType s = IIC_UNKNOWN
        \<and> fst (IdentifyIOexp (fst (LocateDevice (wire_begin w)))
                 (snd (LocateDevice (wire_begin w)))) = IIC_UNKNOWN)"
  by (auto simp add: init_def Let_def split_beta split: if_splits)

text \<open>
  C6, as the code has it. \<open>init\<close> returns the non-zero status -1 on each of its
  failing paths, and on no other (\<open>begin\<close> is declared \<open>void\<close> and does not pass this
  status on): when \<open>LocateDevice\<close> ends at the sentinel; when the address is given,
  no chip type is given and \<open>IdentifyIOexp\<close> ends at Unknown; and when the address was
  found by \<open>LocateDevice\<close>, no chip type is given and the \<open>IdentifyIOexp\<close> that \<open>init\<close>
  then runs on it ends at Unknown. These three paths are exactly the ones that leave
  the address or the chip type unresolved. While the address is the sentinel every
  later \<open>send\<close> returns with the bus and the instance untouched. When only the chip
  type is unresolved the instance keeps its resolved address; nothing is said here
  about later sends on it.
\<close>

theorem init_unresolved_status_and_send:
  assumes "init s w = (status, s', w')"
  shows "((Addr s' = IIC_ADDR_UNKNOWN \<or> iicType s' = IIC_UNKNOWN) = (status = -1))
    \<and> (Addr s = IIC_ADDR_UNKNOWN \<and> fst (LocateDevice (wire_begin w)) = IIC_ADDR_UNKNOWN \<longrightarrow>
        status = -1 \<and> Addr s' = IIC_ADDR_UNKNOWN)
    \<and> (Addr s \<noteq> IIC_ADDR_UNKNOWN \<and> iicType s = IIC_UNKNOWN
        \<and> fst (IdentifyIOexp (Addr s) (wire_begin w)) = IIC_UNKNOWN \<longrightarrow>
        status = -1 \<and> iicType s' = IIC_UNKNOWN \<and> Addr s' = Addr s)
    \<and> (Addr s = IIC_ADDR_UNKNOWN \<and> fst (LocateDevice (wire_begin w)) \<noteq> IIC_ADDR_UNKNOWN
        \<and> iicType s = IIC_UNKNOWN
        \<and> fst (IdentifyIOexp (fst (LocateDevice (wire_begin w)))
                 (snd (LocateDevice (wire_begin w)))) = IIC_UNKNOWN \<longrightarrow>
        status = -1 \<and> iicType s' = IIC_UNKNOWN
        \<and> Addr s' = fst (LocateDevice (wire_begin w)))
    \<and> (Addr s' = IIC_ADDR_UNKNOWN \<or> iicType s' = IIC_UNKNOWN \<longrightarrow>
          (Addr s = IIC_ADDR_UNKNOWN \<and> fst (LocateDevice (wire_begin w)) = IIC_ADDR_UNKNOWN)
        \<or> (Addr s \<noteq> IIC_ADDR_UNKNOWN \<and> iicType s = IIC_UNKNOWN
             \<and> fst (IdentifyIOexp (Addr s) (wire_begin w)) = IIC_UNKNOWN)
        \<or> (Addr s = IIC_ADDR_UNKNOWN \<and> fst (LocateDevice (wire_begin w)) \<noteq> IIC_ADDR_UNKNOWN
             \<and> iicType s = IIC_UNKNOWN
             \<and> fst (IdentifyIOexp (fst (LocateDevice (wire_begin w)))
                      (snd (LocateDevice (wire_begin w)))) = IIC_UNKNOWN))
    \<and> (Addr s' = IIC_ADDR_UNKNOWN \<longrightarrow> sends vs s' w2 = (s', w2))"
proof (intro conjI impI)
  show "(Addr s' = IIC_ADDR_UNKNOWN \<or> iicType s' = IIC_UNKNOWN) = (status = -1)"
  proof
    assume "Addr s' = IIC_ADDR_UNKNOWN \<or> iicType s' = IIC_UNKNOWN"
    with assms show "status = -1"
      by (rule init_status_unresolved)
  next
    assume m: "status = -1"
    show "Addr s' = IIC_ADDR_UNKNOWN \<or> iicType s' = IIC_UNKNOWN"
    proof (rule ccontr)
      assume "\<not> (Addr s' = IIC_ADDR_UNKNOWN \<or> iicType s' = IIC_UNKNOWN)"
      then have "0 \<le> status"
        using assms by (simp add: init_status_resolved)
      with m show False
        by simp
    qed
  qed
next
  assume "Addr s = IIC_ADDR_UNKNOWN \<and> fst (LocateDevice (wire_begin w)) = IIC_ADDR_UNKNOWN"
  then have "init s w = (-1, s\<lparr>Addr := IIC_ADDR_UNKNOWN\<rparr>, snd (LocateDevice (wire_begin w)))"
    by (simp add: init_address_unresolved)
  with assms have "status = -1 \<and> s' = s\<lparr>Addr := IIC_ADDR_UNKNOWN\<rparr>"
    by simp
  then show "status = -1" and "Addr s' = IIC_ADDR_UNKNOWN"
    by simp_all
next
  assume "Addr s \<noteq> IIC_ADDR_UNKNOWN \<and> iicType s = IIC_UNKNOWN
        \<and> fst (IdentifyIOexp (Addr s) (wire_begin w)) = IIC_UNKNOWN"
  then have "init s w =
      (-1, s\<lparr>iicType := IIC_UNKNOWN\<rparr>, snd (IdentifyIOexp (Addr s) (wire_begin w)))"
    by (simp add: init_chip_unresolved)
  with assms have "status = -1 \<and> s' = s\<lparr>iicType := IIC_UNKNOWN\<rparr>"
    by simp
  then show "status = -1" and "iicType s' = IIC_UNKNOWN" and "Addr s' = Addr s"
    by simp_all
next
  assume "Addr s = IIC_ADDR_UNKNOWN \<and> fst (LocateDevice (wire_begin w)) \<noteq> IIC_ADDR_UNKNOWN
        \<and> iicType s = IIC_UNKNOWN
        \<and> fst (IdentifyIOexp (fst (LocateDevice (wire_begin w)))
                 (snd (LocateDevice (wire_begin w)))) = IIC_UNKNOWN"
  then have "init s w =
      (-1, s\<lparr>Addr := fst (LocateDevice (wire_begin w)), iicType := IIC_UNKNOWN\<rparr>,
       snd (IdentifyIOexp (fst (LocateDevice (wire_begin w)))
              (snd (LocateDevice (wire_begin w)))))"
    by (simp add: init_located_chip_unresolved)
  with assms have "status = -1
      \<and> s' = s\<lparr>Addr := fst (LocateDevice (wire_begin w)), iicType := IIC_UNKNOWN\<rparr>"
    by simp
  then show "status = -1" and "iicType s' = IIC_UNKNOWN"
    and "Addr s' = fst (LocateDevice (wire_begin w))"
    by simp_all
next
  assume "Addr s' = IIC_ADDR_UNKNOWN \<or> iicType s' = IIC_UNKNOWN"
  with assms show
    "(Addr s = IIC_ADDR_UNKNOWN \<and> fst (LocateDevice (wire_begin w)) = IIC_ADDR_UNKNOWN)
     \<or> (Addr s \<noteq> IIC_ADDR_UNKNOWN \<and> iicType s = IIC_UNKNOWN
          \<and> fst (IdentifyIOexp (Addr s) (wire_begin w)) = IIC_UNKNOWN)
     \<or> (Addr s = IIC_ADDR_UNKNOWN \<and> fst (LocateDevice (wire_begin w)) \<noteq> IIC_ADDR_UNKNOWN
          \<and> iicType s = IIC_UNKNOWN
          \<and> fst (IdentifyIOexp (fst (LocateDevice (wire_begin w)))
                   (snd (LocateDevice (wire_begin w)))) = IIC_UNKNOWN)"
    by (rule init_unresolved_paths)
next
  assume "Addr s' = IIC_ADDR_UNKNOWN"
  then show "sends vs s' w2 = (s', w2)"
    by (rule sends_unresolved)
qed

text \<open>
  The device of \<open>fickle_wire\<close> is found at address 0 by the scan, and the
  identification that \<open>init\<close> runs next on that address reads 0x55.
\<close>

lemma fickle_wire_located:
  "LocateDevice (wire_begin fickle_wire) = (0, scan_upto (Suc 0) (wire_begin fickle_wire))"
proof -
  have "identified (of_nat 0) (scan_upto 0 (wire_begin fickle_wire))"
    by (simp add: identified_iff wire_begin_def fickle_wire_def probe_calls_def)
  then have "LocateDevice (wire_begin fickle_wire) =
      (of_nat 0, scan_upto (Suc 0) (wire_begin fickle_wire))"
    by (intro LocateDevice_hit) simp_all
  then show ?thesis
    by simp
qed

lemma fickle_wire_second_probe:
  "fst (IdentifyIOexp 0 (scan_upto (Suc 0) (wire_begin fickle_wire))) = IIC_UNKNOWN"
  by (simp add: IdentifyIOexp_eq scan_step_calls scan_step_responses probe_ack_def wire_ops
      fickle_wire_def)

theorem init_unresolved_status_and_send_witness:
  "fst (init (board_extraio IIC_ADDR_UNKNOWN) silent_wire) = -1
   \<and> Addr (fst (snd (init (board_extraio IIC_ADDR_UNKNOWN) silent_wire))) = IIC_ADDR_UNKNOWN
   \<and> sends [(0x41, DATA), (0x28, COMMAND), (0x03, FOUR_BITS)]
        (fst (snd (init (board_extraio IIC_ADDR_UNKNOWN) silent_wire)))
        (snd (snd (init (board_extraio IIC_ADDR_UNKNOWN) silent_wire))) =
       (fst (snd (init (board_extraio IIC_ADDR_UNKNOWN) silent_wire)),
        snd (snd (init (board_extraio IIC_ADDR_UNKNOWN) silent_wire)))
   \<and> fst (init (board_autodetect 0x27) (steady_wire 0x55)) = -1
   \<and> iicType (fst (snd (init (board_autodetect 0x27) (steady_wire 0x55)))) = IIC_UNKNOWN
   \<and> fst (init (board_autodetect IIC_ADDR_UNKNOWN) fickle_wire) = -1
   \<and> iicType (fst (snd (init (board_autodetect IIC_ADDR_UNKNOWN) fickle_wire))) = IIC_UNKNOWN
   \<and> Addr (fst (snd (init (board_autodetect IIC_ADDR_UNKNOWN) fickle_wire))) = 0"
proof -
  let ?r = "init (board_extraio IIC_ADDR_UNKNOWN) silent_wire"
  have e: "?r = (fst ?r, fst (snd ?r), snd (snd ?r))"
    by simp
  have a: "Addr (board_extraio IIC_ADDR_UNKNOWN) = IIC_ADDR_UNKNOWN"
    by (simp add: board_extraio_fields)
  note first = init_unresolved_status_and_send [OF e,
      of "[(0x41, DATA), (0x28, COMMAND), (0x03, FOUR_BITS)]" "snd (snd ?r)"]
  from first a LocateDevice_silent have addr: "Addr (fst (snd ?r)) = IIC_ADDR_UNKNOWN"
    by blast
  with first have one: "fst ?r = -1
      \<and> sends [(0x41, DATA), (0x28, COMMAND), (0x03, FOUR_BITS)] (fst (snd ?r)) (snd (snd ?r)) =
          (fst (snd ?r), snd (snd ?r))"
    by blast
  let ?q = "init (board_autodetect 0x27) (steady_wire 0x55)"
  have q: "?q = (fst ?q, fst (snd ?q), snd (snd ?q))"
    by simp
  have b: "Addr (board_autodetect 0x27) \<noteq> IIC_ADDR_UNKNOWN
      \<and> iicType (board_autodetect 0x27) = IIC_UNKNOWN
      \<and> fst (IdentifyIOexp (Addr (board_autodetect 0x27)) (wire_begin (steady_wire 0x55)))
          = IIC_UNKNOWN"
    by (simp add: board_autodetect_fields IIC_ADDR_UNKNOWN_def IdentifyIOexp_eq wire_begin_def
        steady_wire_def)
  note second = init_unresolved_status_and_send [OF q, of "[]" "snd (snd ?q)"]
  from second b have two: "fst ?q = -1 \<and> iicType (fst (snd ?q)) = IIC_UNKNOWN"
    by blast
  let ?p = "init (board_autodetect IIC_ADDR_UNKNOWN) fickle_wire"
  have p: "?p = (fst ?p, fst (snd ?p), snd (snd ?p))"
    by simp
  have c: "Addr (board_autodetect IIC_ADDR_UNKNOWN) = IIC_ADDR_UNKNOWN
      \<and> fst (LocateDevice (wire_begin fickle_wire)) \<noteq> IIC_ADDR_UNKNOWN
      \<and> iicType (board_autodetect IIC_ADDR_UNKNOWN) = IIC_UNKNOWN
      \<and> fst (IdentifyIOexp (fst (LocateDevice (wire_begin fickle_wire)))
               (snd (LocateDevice (wire_begin fickle_wire)))) = IIC_UNKNOWN"
    by (simp add: board_autodetect_fields fickle_wire_located fickle_wire_second_probe
        IIC_ADDR_UNKNOWN_def del: scan_upto.simps)
  note third = init_unresolved_status_and_send [OF p, of "[]" "snd (snd ?p)"]
  from third c have "fst ?p = -1 \<and> iicType (fst (snd ?p)) = IIC_UNKNOWN
      \<and> Addr (fst (snd ?p)) = fst (LocateDevice (wire_begin fickle_wire))"
    by blast
  then have three: "fst ?p = -1 \<and> iicType (fst (snd ?p)) = IIC_UNKNOWN
      \<and> Addr (fst (snd ?p)) = 0"
    by (simp add: fickle_wire_located del: scan_upto.simps)
  from addr one two three show ?thesis
    by blast
qed

text \<open>
  The specification makes every later \<open>send\<close> a no-op also when only the chip
  type is unresolved. On an instance constructed with the address 0x27 and no chip
  type, on a bus that acknowledges and reads back 0x55, \<open>init\<close> returns -1 with the
  chip type still unknown, and the next Data-mode send of 0x41 opens a transaction to
  0x27 and writes four bytes.
\<close>

theorem init_unknown_chip_send_counterexample:
  "fst (init (board_autodetect 0x27) (steady_wire 0x55)) = -1
   \<and> iicType (fst (snd (init (board_autodetect 0x27) (steady_wire 0x55)))) = IIC_UNKNOWN
   \<and> calls (snd (send 0x41 DATA
        (fst (snd (init (board_autodetect 0x27) (steady_wire 0x55))))
        (snd (snd (init (board_autodetect 0x27) (steady_wire 0x55)))))) =
       calls (snd (snd (init (board_autodetect 0x27) (steady_wire 0x55))))
         @ [BeginTransmission 0x27, WireWrite 0x54, WireWrite 0x14, WireWrite 0x51,
            WireWrite 0x11, EndTransmission]"
proof -
  have r: "init (board_autodetect 0x27) (steady_wire 0x55) =
      (-1, (board_autodetect 0x27)\<lparr>iicType := IIC_UNKNOWN\<rparr>,
       snd (IdentifyIOexp (Addr (board_autodetect 0x27)) (wire_begin (steady_wire 0x55))))"
    by (rule init_chip_unresolved)
       (simp_all add: board_autodetect_fields IIC_ADDR_UNKNOWN_def IdentifyIOexp_eq
         wire_begin_def steady_wire_def)
  have a: "Addr ((board_autodetect 0x27)\<lparr>iicType := IIC_UNKNOWN\<rparr>) \<noteq> IIC_ADDR_UNKNOWN"
    by (simp add: board_autodetect_fields IIC_ADDR_UNKNOWN_def)
  have m: "DATA \<noteq> FOUR_BITS"
    by (simp add: DATA_def FOUR_BITS_def)
  have v: "\<not> (DATA = DATA \<and> ((0x41 :: u8) = 0x0D \<or> (0x41 :: u8) = 0x0A))"
    by simp
  show ?thesis
    unfolding r
    by (simp add: send_full_byte [OF a m v] olat_calls_def pulse_calls_def
        pinMapValue_formula board_autodetect_fields)
qed

section \<open>I2CIO: shadow and transmitted byte\<close>

lemma I2CIO_write_initialised:
  "initialised s \<Longrightarrow>
   I2CIO_write cmd v s w =
     ((if endStatus w (calls w @ [BeginTransmission (i2cAddr s)]
                         @ (if chipType s = 0 then [WireWrite cmd] else [])
                         @ [WireWrite (v AND NOT (dirMask s))]) = 0
       then 1 else 0),
      s\<lparr>shadow := v AND NOT (dirMask s)\<rparr>,
      w\<lparr>calls := calls w @ [BeginTransmission (i2cAddr s)]
                  @ (if chipType s = 0 then [WireWrite cmd] else [])
                  @ [WireWrite (v AND NOT (dirMask s)), EndTransmission]\<rparr>)"
  by (simp add: I2CIO_write_def wire_ops Let_def uint_0_iff)

lemma I2CIO_write_uninitialised: "\<not> initialised s \<Longrightarrow> I2CIO_write cmd v s w = (1, s, w)"
  by (simp add: I2CIO_write_def)

text \<open>The byte that \<open>digitalWrite\<close> hands on: the shadow with the pin set or cleared.\<close>

lemma I2CIO_digitalWrite_initialised:
  "initialised s \<Longrightarrow> pin \<le> 7 \<Longrightarrow>
   I2CIO_digitalWrite gpio pin level s w =
     I2CIO_write gpio
       (if level = HIGH then shadow s OR (pin_mask pin AND NOT (dirMask s))
        else shadow s AND NOT (pin_mask pin AND NOT (dirMask s)))
       s w"
  by (simp add: I2CIO_digitalWrite_def I2CIO_write_def wire_ops Let_def)

lemma I2CIO_digitalWrite_guard:
  "\<not> (initialised s \<and> pin \<le> 7) \<Longrightarrow> I2CIO_digitalWrite gpio pin level s w = (0, s, w)"
  by (auto simp add: I2CIO_digitalWrite_def)

lemma last_written_snoc: "last (written (cs @ [WireWrite v, EndTransmission])) = v"
  by (simp add: written_append)

text \<open>
  C9, as the code has it. On an initialised instance every \<open>write(cmd, value)\<close> opens a
  transaction, transmits the register byte on an MCP23008 and then
  \<open>value & ~_dirMask\<close>, stores that byte as the shadow, and returns 1 exactly when
  \<open>endTransmission\<close> reports 0; every \<open>digitalWrite(pin, level)\<close> with a pin in 0..7
  does the same with the shadow in which the pin has been set or cleared as the
  value. In both cases the shadow afterwards is the last byte written to the bus,
  whatever status the transaction ends with. On an instance that is not initialised,
  and for \<open>digitalWrite\<close> on a pin above 7, nothing is transmitted and the shadow
  stays as it was.
\<close>

theorem I2CIO_shadow_is_transmitted:
  "(initialised s \<longrightarrow>
      (case I2CIO_write cmd v s w of (r, s', w') \<Rightarrow>
         calls w' = calls w @ [BeginTransmission (i2cAddr s)]
                      @ (if chipType s = 0 then [WireWrite cmd] else [])
                      @ [WireWrite (v AND NOT (dirMask s)), EndTransmission]
         \<and> shadow s' = v AND NOT (dirMask s)
         \<and> last (written (calls w')) = shadow s'
         \<and> r = (if endStatus w (calls w @ [BeginTransmission (i2cAddr s)]
                         @ (if chipType s = 0 then [WireWrite cmd] else [])
                         @ [WireWrite (v AND NOT (dirMask s))]) = 0
                then 1 else 0)))
   \<and> (initialised s \<and> pin \<le> 7 \<longrightarrow>
      (case I2CIO_digitalWrite gpio pin level s w of (r, s', w') \<Rightarrow>
         (let t = (if level = HIGH then shadow s OR (pin_mask pin AND NOT (dirMask s))
                   else shadow s AND NOT (pin_mask pin AND NOT (dirMask s)))
                  AND NOT (dirMask s)
          in calls w' = calls w @ [BeginTransmission (i2cAddr s)]
                          @ (if chipType s = 0 then [WireWrite gpio] else [])
                          @ [WireWrite t, EndTransmission]
             \<and> shadow s' = t
             \<and> last (written (calls w')) = shadow s'
             \<and> r = (if endStatus w (calls w @ [BeginTransmission (i2cAddr s)]
                             @ (if chipType s = 0 then [WireWrite gpio] else [])
                             @ [WireWrite t]) = 0
                    then 1 else 0))))
   \<and> (\<not> initialised s \<longrightarrow> snd (I2CIO_write cmd v s w) = (s, w))
   \<and> (\<not> (initialised s \<and> pin \<le> 7) \<longrightarrow> snd (I2CIO_digitalWrite gpio pin level s w) = (s, w))"
proof (intro conjI impI)
  assume "initialised s"
  then show "case I2CIO_write cmd v s w of (r, s', w') \<Rightarrow>
         calls w' = calls w @ [BeginTransmission (i2cAddr s)]
                      @ (if chipType s = 0 then [WireWrite cmd] else [])
                      @ [WireWrite (v AND NOT (dirMask s)), EndTransmission]
         \<and> shadow s' = v AND NOT (dirMask s)
         \<and> last (written (calls w')) = shadow s'
         \<and> r = (if endStatus w (calls w @ [BeginTransmission (i2cAddr s)]
                         @ (if chipType s = 0 then [WireWrite cmd] else [])
                         @ [WireWrite (v AND NOT (dirMask s))]) = 0
                then 1 else 0)"
    by (simp add: I2CIO_write_initialised written_append)
next
  assume "initialised s \<and> pin \<le> 7"
  then show "case I2CIO_digitalWrite gpio pin level s w of (r, s', w') \<Rightarrow>
         (let t = (if level = HIGH then shadow s OR (pin_mask pin AND NOT (dirMask s))
                   else shadow s AND NOT (pin_mask pin AND NOT (dirMask s)))
                  AND NOT (dirMask s)
          in calls w' = calls w @ [BeginTransmission (i2cAddr s)]
                          @ (if chipType s = 0 then [WireWrite gpio] else [])
                          @ [WireWrite t, EndTransmission]
             \<and> shadow s' = t
             \<and> last (written (calls w')) = shadow s'
             \<and> r = (if endStatus w (calls w @ [BeginTransmission (i2cAddr s)]
                             @ (if chipType s = 0 then [WireWrite gpio] else [])
                             @ [WireWrite t]) = 0
                    then 1 else 0))"
    by (simp add: I2CIO_digitalWrite_initialised I2CIO_write_initialised written_append Let_def)
next
  assume "\<not> initialised s"
  then show "snd (I2CIO_write cmd v s w) = (s, w)"
    by (simp add: I2CIO_write_uninitialised)
next
  assume "\<not> (initialised s \<and> pin \<le> 7)"
  then show "snd (I2CIO_digitalWrite gpio pin level s w) = (s, w)"
    by (simp add: I2CIO_digitalWrite_guard)
qed

theorem I2CIO_shadow_is_transmitted_witness:
  "I2CIO_write 0x09 0xA5
     \<lparr>i2cAddr = 0x20, dirMask = 0x0F, shadow = 0xFF, initialised = True, chipType = 0\<rparr>
     silent_wire =
   (0, \<lparr>i2cAddr = 0x20, dirMask = 0x0F, shadow = 0xA0, initialised = True, chipType = 0\<rparr>,
    silent_wire\<lparr>calls := [BeginTransmission 0x20, WireWrite 0x09, WireWrite 0xA0,
                          EndTransmission]\<rparr>)
   \<and> I2CIO_digitalWrite 0x09 6 HIGH
     \<lparr>i2cAddr = 0x38, dirMask = 0x0F, shadow = 0x83, initialised = True, chipType = 1\<rparr>
     (steady_wire 0) =
   (1, \<lparr>i2cAddr = 0x38, dirMask = 0x0F, shadow = 0xC0, initialised = True, chipType = 1\<rparr>,
    (steady_wire 0)\<lparr>calls := [BeginTransmission 0x38, WireWrite 0xC0, EndTransmission]\<rparr>)"
proof -
  let ?s = "\<lparr>i2cAddr = 0x20, dirMask = 0x0F, shadow = 0xFF, initialised = True, chipType = 0\<rparr>"
  let ?t = "\<lparr>i2cAddr = 0x38, dirMask = 0x0F, shadow = 0x83, initialised = True, chipType = 1\<rparr>"
  have p: "pin_mask 6 = 0x40"
    by (simp add: pin_mask_def)
  have "I2CIO_write 0x09 0xA5 ?s silent_wire =
      (0, ?s\<lparr>shadow := 0xA0\<rparr>,
       silent_wire\<lparr>calls := [BeginTransmission 0x20, WireWrite 0x09, WireWrite 0xA0,
                             EndTransmission]\<rparr>)"
    using I2CIO_shadow_is_transmitted [where s = ?s and cmd = "0x09" and v = "0xA5"
        and w = silent_wire, THEN conjunct1]
    by (cases "I2CIO_write 0x09 0xA5 ?s silent_wire")
       (simp add: silent_wire_def I2CIO_write_initialised)
  moreover have "I2CIO_digitalWrite 0x09 6 HIGH ?t (steady_wire 0) =
      (1, ?t\<lparr>shadow := 0xC0\<rparr>,
       (steady_wire 0)\<lparr>calls := [BeginTransmission 0x38, WireWrite 0xC0, EndTransmission]\<rparr>)"
    using I2CIO_shadow_is_transmitted [where s = ?t and w = "steady_wire 0" and pin = 6
        and gpio = "0x09" and level = HIGH, THEN conjunct2, THEN conjunct1]
    by (cases "I2CIO_digitalWrite 0x09 6 HIGH ?t (steady_wire 0)")
       (simp add: steady_wire_def I2CIO_digitalWrite_initialised I2CIO_write_initialised p
         HIGH_def)
  ultimately show ?thesis
    by simp
qed

text \<open>
  The specification states this for every call. A \<open>write\<close> on an instance that was
  only constructed transmits nothing and still returns 1; a \<open>digitalWrite\<close> on pin 8
  of an initialised instance transmits nothing, returns 0 and leaves a shadow
  (here 0xFF, with bits of input pins set) that was never written to the bus.
\<close>

theorem I2CIO_write_guard_counterexample:
  "I2CIO_write 0x09 0xFF (I2CIO raw_i2cio) (steady_wire 0) =
     (1, I2CIO raw_i2cio, steady_wire 0)
   \<and> calls (steady_wire 0) = []
   \<and> I2CIO_digitalWrite 0x09 8 HIGH
       \<lparr>i2cAddr = 0x38, dirMask = 0x0F, shadow = 0xFF, initialised = True, chipType = 1\<rparr>
       (steady_wire 0) =
     (0, \<lparr>i2cAddr = 0x38, dirMask = 0x0F, shadow = 0xFF, initialised = True, chipType = 1\<rparr>,
      steady_wire 0)"
  by (simp add: I2CIO_write_def I2CIO_digitalWrite_def I2CIO_def raw_i2cio_def
      steady_wire_def)

end
